theory Spec2Isabelle
  imports Main
begin

section \<open>Strings and errors\<close>

text \<open>
  A Go \<^verbatim>\<open>string\<close> is a sequence of bytes, here a \<^typ>\<open>string\<close> (a list of 8-bit
  characters); where the Go code works on runes, the UTF-8 encoding is spelled out in bytes.
  A Go \<^verbatim>\<open>error\<close> value is an \<open>error\<close>: \<open>Error msg\<close> is \<^verbatim>\<open>errors.New(msg)\<close> or
  \<^verbatim>\<open>fmt.Errorf\<close> with its rendered message, \<open>SyntaxError code expr\<close> is a
  \<^verbatim>\<open>*regexp/syntax.Error{Code, Expr}\<close>. \<open>Unmodelled\<close> is no Go error: it is what the
  models of the Go standard library given below (regular expressions, JSON) answer outside the
  fragment of inputs they cover. No theorem below relies on that answer: the general theorems
  hold for every library function passed as a parameter.
\<close>

datatype error = Error string | SyntaxError string string | Unmodelled

definition HasPrefix :: "string \<Rightarrow> string \<Rightarrow> bool" where
  "HasPrefix s pre = (take (length pre) s = pre)"

definition TrimPrefix :: "string \<Rightarrow> string \<Rightarrow> string" where
  "TrimPrefix s pre = (if HasPrefix s pre then drop (length pre) s else s)"

text \<open>
  \<open>cut sep s\<close> splits \<open>s\<close> around the first occurrence of the non-empty separator \<open>sep\<close>.
  It carries \<^verbatim>\<open>strings.Contains(s, sep)\<close> and \<^verbatim>\<open>strings.SplitN(s, sep, 2)\<close>, which the
  source only calls with the separators \<^verbatim>\<open>":"\<close>, \<^verbatim>\<open>"=="\<close> and \<^verbatim>\<open>"!="\<close>.
\<close>

fun cut :: "string \<Rightarrow> string \<Rightarrow> (string \<times> string) option" where
  "cut sep [] = None"
| "cut sep (c # cs) =
     (if HasPrefix (c # cs) sep then Some ([], drop (length sep) (c # cs))
      else (case cut sep cs of None \<Rightarrow> None | Some (b, a) \<Rightarrow> Some (c # b, a)))"

definition Contains :: "string \<Rightarrow> string \<Rightarrow> bool" where
  "Contains s sep = (cut sep s \<noteq> None)"

text \<open>
  \<^verbatim>\<open>parts := strings.SplitN(s, sep, 2)\<close>: \<^verbatim>\<open>parts[0]\<close> and, when \<^verbatim>\<open>len(parts) == 2\<close>,
  \<^verbatim>\<open>parts[1]\<close>.
\<close>

definition SplitN2 :: "string \<Rightarrow> string \<Rightarrow> string \<times> string option" where
  "SplitN2 s sep = (case cut sep s of None \<Rightarrow> (s, None) | Some (b, a) \<Rightarrow> (b, Some a))"

section \<open>Regular expressions of the Go standard library\<close>

text \<open>
  \<^verbatim>\<open>regexp.MatchString(pattern, s)\<close> returns \<^verbatim>\<open>(matched bool, err error)\<close>; when the
  pattern does not compile it returns \<^verbatim>\<open>(false, err)\<close>, otherwise \<^verbatim>\<open>(matched, nil)\<close>.
  The result is a sum: \<open>Inl err\<close> or \<open>Inr matched\<close>. The package is not part of the
  repository, so \<open>Match\<close> below takes the function as a parameter of this type.
\<close>

type_synonym regexp_matcher = "string \<Rightarrow> string \<Rightarrow> error + bool"

text \<open>
  For concrete inputs, \<open>regexp_MatchString\<close> models the library on a fragment of its syntax
  (\<^verbatim>\<open>regexp/syntax.Parse\<close> with the \<^verbatim>\<open>Perl\<close> flags): ASCII literals, the anchors \<^verbatim>\<open>^\<close>
  and \<^verbatim>\<open>$\<close> (begin and end of text: \<^verbatim>\<open>OneLine\<close> is set), and the postfix operators
  \<^verbatim>\<open>*\<close>, \<^verbatim>\<open>+\<close>, \<^verbatim>\<open>?\<close>, each optionally followed by the non-greedy mark \<^verbatim>\<open>?\<close>.
  Escapes, \<^verbatim>\<open>.\<close>, groups, alternation, classes, counted repetition and non-ASCII bytes are
  outside the fragment (\<open>Unmodelled\<close>). As in the Go parser, a repetition operator right
  after another one is \<^verbatim>\<open>ErrInvalidRepeatOp\<close>, and one with nothing before it is
  \<^verbatim>\<open>ErrMissingRepeatArgument\<close>. The match is a search: the pattern may match anywhere in
  the text unless it is anchored, and letters match case-sensitively.
\<close>

datatype atom = Lit char | BeginText | EndText

datatype rep = Once | Star | Plus | Quest

definition op_rep :: "char \<Rightarrow> rep" where
  "op_rep c = (if c = CHR ''*'' then Star else if c = CHR ''+'' then Plus else Quest)"

definition unmodelled_char :: "char \<Rightarrow> bool" where
  "unmodelled_char c = (c = CHR 0x5C \<or> c \<in> set ''.()|[{'' \<or> 128 \<le> (of_char c :: nat))"

text \<open>
  The parser's loop: \<open>st\<close> is the stack of parsed pieces (top first), \<open>lastRepeat\<close> the text
  of the repetition operator just before the current position (\<open>[]\<close> when the previous
  token was not one).
\<close>

fun parse_loop :: "string \<Rightarrow> (atom \<times> rep) list \<Rightarrow> string \<Rightarrow> error + (atom \<times> rep) list" where
  "parse_loop [] st lastRepeat = Inr st"
| "parse_loop (c # t) st lastRepeat =
     (if c \<in> set ''*+?'' then
        (let lazy = (case t of [] \<Rightarrow> False | d # _ \<Rightarrow> d = CHR ''?'');
             opr = (if lazy then [c, CHR ''?''] else [c]);
             after = (if lazy then tl t else t)
         in if lastRepeat \<noteq> [] then
              Inl (SyntaxError ''invalid nested repetition operator'' (lastRepeat @ opr))
            else (case st of
                [] \<Rightarrow> Inl (SyntaxError ''missing argument to repetition operator'' opr)
              | (a, r) # st' \<Rightarrow> parse_loop after ((a, op_rep c) # st') opr))
      else if c = CHR ''^'' then parse_loop t ((BeginText, Once) # st) []
      else if c = CHR ''$'' then parse_loop t ((EndText, Once) # st) []
      else if unmodelled_char c then Inl Unmodelled
      else parse_loop t ((Lit c, Once) # st) [])"

text \<open>
  \<open>match_here items at_start s\<close>: the pieces match a prefix of \<open>s\<close>, where \<open>at_start\<close>
  says that \<open>s\<close> is the whole text (position 0). A repeated anchor matches the empty string
  whenever zero repetitions do.
\<close>

fun match_here :: "(atom \<times> rep) list \<Rightarrow> bool \<Rightarrow> string \<Rightarrow> bool" where
  "match_here [] at_start s = True"
| "match_here ((Lit c, Once) # ps) at_start s =
     (case s of [] \<Rightarrow> False | d # r \<Rightarrow> d = c \<and> match_here ps False r)"
| "match_here ((Lit c, Quest) # ps) at_start s =
     (match_here ps at_start s \<or> (case s of [] \<Rightarrow> False | d # r \<Rightarrow> d = c \<and> match_here ps False r))"
| "match_here ((Lit c, Star) # ps) at_start s =
     (match_here ps at_start s
      \<or> (case s of [] \<Rightarrow> False | d # r \<Rightarrow> d = c \<and> match_here ((Lit c, Star) # ps) False r))"
| "match_here ((Lit c, Plus) # ps) at_start s =
     (case s of [] \<Rightarrow> False | d # r \<Rightarrow> d = c \<and> match_here ((Lit c, Star) # ps) False r)"
| "match_here ((BeginText, Once) # ps) at_start s = (at_start \<and> match_here ps at_start s)"
| "match_here ((BeginText, Plus) # ps) at_start s = (at_start \<and> match_here ps at_start s)"
| "match_here ((BeginText, r) # ps) at_start s = match_here ps at_start s"
| "match_here ((EndText, Once) # ps) at_start s = (s = [] \<and> match_here ps at_start s)"
| "match_here ((EndText, Plus) # ps) at_start s = (s = [] \<and> match_here ps at_start s)"
| "match_here ((EndText, r) # ps) at_start s = match_here ps at_start s"

fun search :: "(atom \<times> rep) list \<Rightarrow> bool \<Rightarrow> string \<Rightarrow> bool" where
  "search ps at_start [] = match_here ps at_start []"
| "search ps at_start (c # cs) = (match_here ps at_start (c # cs) \<or> search ps False cs)"

definition regexp_MatchString :: regexp_matcher where
  "regexp_MatchString pattern s =
     (case parse_loop pattern [] [] of
        Inl err \<Rightarrow> Inl err
      | Inr st \<Rightarrow> Inr (search (rev st) True s))"

section \<open>Expressions (scheduler/filter/expr.go)\<close>

subsection \<open>Matching\<close>

definition EQ :: int where "EQ = 0"
definition NOTEQ :: int where "NOTEQ = 1"

definition OPERATORS :: "string list" where
  "OPERATORS = [''=='', ''!='']"

record expr =
  expr_key :: string
  expr_operator :: int
  expr_value :: string

text \<open>
  The loop of \<open>Match\<close> over the candidates: it stops at the first candidate that matches and
  logs the error of every candidate for which \<^verbatim>\<open>regexp.MatchString\<close> failed. It returns the
  final value of the variable \<^verbatim>\<open>match\<close> and the errors passed to \<^verbatim>\<open>log.Error\<close>, in order.
\<close>

fun Match_loop :: "regexp_matcher \<Rightarrow> string \<Rightarrow> string list \<Rightarrow> error list \<Rightarrow> bool \<times> error list" where
  "Match_loop rx v [] logged = (False, logged)"
| "Match_loop rx v (what # whats) logged =
     (case rx v what of
        Inr True \<Rightarrow> (True, logged)
      | Inr False \<Rightarrow> Match_loop rx v whats logged
      | Inl err \<Rightarrow> Match_loop rx v whats (logged @ [err]))"

definition Match :: "regexp_matcher \<Rightarrow> expr \<Rightarrow> string list \<Rightarrow> bool \<times> error list" where
  "Match rx e whats =
     (let (match, logged) = Match_loop rx (expr_value e) whats []
      in (if expr_operator e = EQ then match
          else if expr_operator e = NOTEQ then \<not> match
          else False,
          logged))"

subsection \<open>Parsing\<close>

text \<open>
  \<open>parseExprs\<close> validates keys and values with two constant patterns, which compile, so the
  error branches after those calls of \<^verbatim>\<open>regexp.MatchString\<close> are never taken. Both patterns
  are anchored at both ends and set the flag \<^verbatim>\<open>(?i)\<close>; under it the class \<^verbatim>\<open>[a-z]\<close> holds
  the ASCII letters of both cases and the two other runes that fold to an ASCII letter:
  U+017F (bytes C5 BF) and U+212A (bytes E2 84 AA). \<open>fold_letter s\<close> is the number of bytes of
  such a letter at the head of \<open>s\<close>, or 0.
\<close>

definition ascii_upper :: "char \<Rightarrow> bool" where
  "ascii_upper c = (65 \<le> (of_char c :: nat) \<and> (of_char c :: nat) \<le> 90)"

definition ascii_lower :: "char \<Rightarrow> bool" where
  "ascii_lower c = (97 \<le> (of_char c :: nat) \<and> (of_char c :: nat) \<le> 122)"

definition ascii_digit :: "char \<Rightarrow> bool" where
  "ascii_digit c = (48 \<le> (of_char c :: nat) \<and> (of_char c :: nat) \<le> 57)"

definition fold_letter :: "string \<Rightarrow> nat" where
  "fold_letter s =
     (case s of
        [] \<Rightarrow> 0
      | c # cs \<Rightarrow>
          if ascii_upper c \<or> ascii_lower c then 1
          else if c = CHR 0xC5 \<and> take 1 cs = [CHR 0xBF] then 2
          else if c = CHR 0xE2 \<and> take 2 cs = [CHR 0x84, CHR 0xAA] then 3
          else 0)"

text \<open>The classes of the two patterns: the byte length of a rune of the class at the head, or 0.\<close>

definition key_first_class :: "string \<Rightarrow> nat" where
  "key_first_class s =
     (if fold_letter s > 0 then fold_letter s
      else (case s of [] \<Rightarrow> 0 | c # cs \<Rightarrow> if c = CHR ''_'' then 1 else 0))"

definition key_class :: "string \<Rightarrow> nat" where
  "key_class s =
     (if fold_letter s > 0 then fold_letter s
      else (case s of [] \<Rightarrow> 0 | c # cs \<Rightarrow> if ascii_digit c \<or> c \<in> set ''-_'' then 1 else 0))"

definition value_class :: "string \<Rightarrow> nat" where
  "value_class s =
     (if fold_letter s > 0 then fold_letter s
      else (case s of
          [] \<Rightarrow> 0
        | c # cs \<Rightarrow> if ascii_digit c \<or> c \<in> set '':-_.*/()?+[]^$'' \<or> c = CHR 0x5C then 1 else 0))"

text \<open>
  \<open>all_runes cls k s\<close>: after the \<open>k\<close> bytes that end the current rune, every rune of \<open>s\<close>
  is in the class.
\<close>

fun all_runes :: "(string \<Rightarrow> nat) \<Rightarrow> nat \<Rightarrow> string \<Rightarrow> bool" where
  "all_runes cls 0 [] = True"
| "all_runes cls (Suc k) [] = False"
| "all_runes cls (Suc k) (c # cs) = all_runes cls k cs"
| "all_runes cls 0 (c # cs) = (cls (c # cs) > 0 \<and> all_runes cls (cls (c # cs) - 1) cs)"

text \<open>The pattern \<^verbatim>\<open>^(?i)[a-z_][a-z0-9\-_]+$\<close>.\<close>

definition key_valid :: "string \<Rightarrow> bool" where
  "key_valid k =
     (key_first_class k > 0 \<and> drop (key_first_class k) k \<noteq> []
      \<and> all_runes key_class 0 (drop (key_first_class k) k))"

text \<open>The pattern \<^verbatim>\<open>^(?i)[=!\/]?[a-z0-9:\-_\.\*/\(\)\?\+\[\]\\\^\$]+$\<close>.\<close>

definition value_valid :: "string \<Rightarrow> bool" where
  "value_valid v =
     ((v \<noteq> [] \<and> all_runes value_class 0 v)
      \<or> (case v of
            [] \<Rightarrow> False
          | c # t \<Rightarrow> c \<in> set ''=!/'' \<and> t \<noteq> [] \<and> all_runes value_class 0 t))"

text \<open>
  \<^verbatim>\<open>strings.ToLower\<close> on the strings \<open>parseExprs\<close> applies it to, the valid keys: an ASCII
  capital becomes its small letter, U+212A becomes \<^verbatim>\<open>k\<close>, every other rune of a valid key
  is unchanged. The first argument counts the bytes of the current rune still to skip.
\<close>

fun ToLower_from :: "nat \<Rightarrow> string \<Rightarrow> string" where
  "ToLower_from k [] = []"
| "ToLower_from (Suc k) (c # cs) = ToLower_from k cs"
| "ToLower_from 0 (c # cs) =
     (if c = CHR 0xE2 \<and> take 2 cs = [CHR 0x84, CHR 0xAA] then CHR ''k'' # ToLower_from 2 cs
      else (if ascii_upper c then char_of (of_char c + (32 :: nat)) else c) # ToLower_from 0 cs)"

definition ToLower :: "string \<Rightarrow> string" where
  "ToLower s = ToLower_from 0 s"

definition squote :: char where
  "squote = CHR 0x27"

text \<open>
  The inner loop of \<open>parseExprs\<close> over \<open>OPERATORS\<close>, from index \<open>i\<close>: the expression of the
  entry for the first operator the entry contains, or the error. Running out of operators
  is the case \<^verbatim>\<open>!found\<close>.
\<close>

fun ops_loop :: "string \<Rightarrow> int \<Rightarrow> string list \<Rightarrow> error + expr" where
  "ops_loop entry i [] = Inl (Error ''One of operator ==, != is expected'')"
| "ops_loop entry i (opr # ops) =
     (if Contains entry opr then
        (case SplitN2 entry opr of (k, part2) \<Rightarrow>
           if \<not> key_valid k then
             Inl (Error (''Key '' @ [squote] @ k @ [squote] @ '' is invalid''))
           else (case part2 of
               Some v \<Rightarrow>
                 if \<not> value_valid v then
                   Inl (Error (''Value '' @ [squote] @ v @ [squote] @ '' is invalid''))
                 else Inr \<lparr>expr_key = ToLower k, expr_operator = i, expr_value = v\<rparr>
             | None \<Rightarrow> Inr \<lparr>expr_key = ToLower k, expr_operator = i, expr_value = []\<rparr>))
      else ops_loop entry (i + 1) ops)"

fun parseExprs_loop :: "string \<Rightarrow> string list \<Rightarrow> expr list \<Rightarrow> error + expr list" where
  "parseExprs_loop k [] exprs = Inr exprs"
| "parseExprs_loop k (e # env) exprs =
     (if HasPrefix e (k @ '':'') then
        (case ops_loop (TrimPrefix e (k @ '':'')) 0 OPERATORS of
           Inl err \<Rightarrow> Inl err
         | Inr x \<Rightarrow> parseExprs_loop k env (exprs @ [x]))
      else parseExprs_loop k env exprs)"

definition parseExprs :: "string \<Rightarrow> string list \<Rightarrow> error + expr list" where
  "parseExprs k env = parseExprs_loop k env []"

section \<open>JSON of the Go standard library\<close>

text \<open>
  \<^verbatim>\<open>encoding/json\<close> is not part of the repository either. The source decodes a label into a
  \<^verbatim>\<open>[]string\<close> variable that is \<^verbatim>\<open>nil\<close> before the call and never looks at the returned
  error; \<open>json_unmarshal\<close> gives the returned error and the contents of the variable after the
  call. \<open>json_marshal\<close> is \<^verbatim>\<open>json.Marshal\<close> on a \<^verbatim>\<open>[]string\<close>.
\<close>

type_synonym json_unmarshal = "string \<Rightarrow> error option \<times> string list"
type_synonym json_marshal = "string list \<Rightarrow> error + string"

text \<open>
  For concrete inputs, \<open>json_Marshal\<close> and \<open>json_Unmarshal\<close> model the library on the
  compact arrays of strings that need no escaping: \<^verbatim>\<open>["a","b"]\<close>, every character printable
  ASCII other than the double quote, the backslash and the three characters \<^verbatim>\<open>< > &\<close> that
  \<^verbatim>\<open>json.Marshal\<close> writes as escapes. Everything else is \<open>Unmodelled\<close>.
\<close>

definition dquote :: char where
  "dquote = CHR 0x22"

definition json_plain :: "char \<Rightarrow> bool" where
  "json_plain c = (32 \<le> (of_char c :: nat) \<and> (of_char c :: nat) < 127
     \<and> c \<noteq> dquote \<and> c \<noteq> CHR 0x5C \<and> c \<notin> set ''<>&'')"

fun json_join :: "string list \<Rightarrow> string" where
  "json_join [] = []"
| "json_join [x] = dquote # x @ [dquote]"
| "json_join (x # y # ys) = dquote # x @ [dquote] @ '','' @ json_join (y # ys)"

definition json_Marshal :: json_marshal where
  "json_Marshal xs =
     (if xs \<noteq> [] \<and> (\<forall>x \<in> set xs. \<forall>c \<in> set x. json_plain c)
      then Inr (''['' @ json_join xs @ '']'') else Inl Unmodelled)"

text \<open>
  The elements of an array, read after the opening bracket. State 0 expects the opening quote
  of an element, state 1 is inside an element (\<open>cur\<close>), state 2 is after its closing quote.
\<close>

fun json_elems :: "nat \<Rightarrow> string \<Rightarrow> string \<Rightarrow> string list \<Rightarrow> string list option" where
  "json_elems st [] cur acc = None"
| "json_elems st (c # cs) cur acc =
     (if st = 0 then (if c = dquote then json_elems 1 cs [] acc else None)
      else if st = 1 then
        (if c = dquote then json_elems 2 cs cur acc
         else if json_plain c then json_elems 1 cs (cur @ [c]) acc
         else None)
      else
        (if c = CHR '','' then json_elems 0 cs [] (acc @ [cur])
         else if c = CHR '']'' \<and> cs = [] then Some (acc @ [cur])
         else None))"

definition json_Unmarshal :: json_unmarshal where
  "json_Unmarshal s =
     (if s = ''[]'' then (None, [])
      else (case s of
          [] \<Rightarrow> (Some Unmodelled, [])
        | c # cs \<Rightarrow>
            (if c = CHR ''['' then
               (case json_elems 0 cs [] [] of
                  Some xs \<Rightarrow> (None, xs)
                | None \<Rightarrow> (Some Unmodelled, []))
             else (Some Unmodelled, []))))"

section \<open>Container configuration (cluster/config.go)\<close>

definition SwarmLabelNamespace :: string where
  "SwarmLabelNamespace = ''com.docker.swarm''"

text \<open>
  \<^verbatim>\<open>container.Config\<close> with the two fields the code reads and writes. A \<^verbatim>\<open>nil\<close> label map
  reads like an empty one, and \<open>BuildContainerConfig\<close> replaces it by an empty map before it
  writes, so both are the empty map here. \<open>ContainerConfig\<close> embeds \<^verbatim>\<open>container.Config\<close>;
  the host and networking configurations are carried along and never inspected.
\<close>

record Config =
  Env :: "string list"
  Labels :: "string \<rightharpoonup> string"

record ('h, 'n) ContainerConfig = Config +
  HostConfig :: 'h
  NetworkingConfig :: 'n

definition parseEnv :: "string \<Rightarrow> bool \<times> string \<times> string" where
  "parseEnv e =
     (case SplitN2 e '':'' of
        (k, Some v) \<Rightarrow> (True, k, v)
      | (k, None) \<Rightarrow> (False, [], []))"

text \<open>
  The loop of \<open>BuildContainerConfig\<close> over \<^verbatim>\<open>c.Env\<close>; the accumulator holds the variables
  \<^verbatim>\<open>affinities\<close>, \<^verbatim>\<open>constraints\<close>, \<^verbatim>\<open>reschedulePolicies\<close>, \<^verbatim>\<open>checkpointTime\<close> and
  \<^verbatim>\<open>env\<close>.
\<close>

fun env_loop :: "string list
    \<Rightarrow> string list \<times> string list \<times> string list \<times> string list \<times> string list
    \<Rightarrow> string list \<times> string list \<times> string list \<times> string list \<times> string list" where
  "env_loop [] acc = acc"
| "env_loop (e # es) (affinities, constraints, reschedulePolicies, checkpointTime, env) =
     (case parseEnv e of (ok, k, v) \<Rightarrow>
        if ok \<and> k = ''affinity'' then
          env_loop es (affinities @ [v], constraints, reschedulePolicies, checkpointTime, env)
        else if ok \<and> k = ''constraint'' then
          env_loop es (affinities, constraints @ [v], reschedulePolicies, checkpointTime, env)
        else if ok \<and> k = ''reschedule'' then
          env_loop es (affinities, constraints, reschedulePolicies @ [v], checkpointTime, env)
        else if ok \<and> k = ''checkpoint-time'' then
          env_loop es (affinities, constraints, reschedulePolicies, checkpointTime @ [v], env)
        else
          env_loop es (affinities, constraints, reschedulePolicies, checkpointTime, env @ [e]))"

text \<open>Reading a list from a label, and storing a non-empty list in a label.\<close>

definition label_list :: "json_unmarshal \<Rightarrow> (string \<rightharpoonup> string) \<Rightarrow> string \<Rightarrow> string list" where
  "label_list unmarshal labels name =
     (case labels name of
        Some l \<Rightarrow> snd (unmarshal l)
      | None \<Rightarrow> [])"

definition store_label :: "json_marshal \<Rightarrow> string \<Rightarrow> string list
    \<Rightarrow> (string \<rightharpoonup> string) \<Rightarrow> (string \<rightharpoonup> string)" where
  "store_label marshal name xs labels =
     (if length xs > 0 then
        (case marshal xs of
           Inr l \<Rightarrow> labels(name \<mapsto> l)
         | Inl err \<Rightarrow> labels)
      else labels)"

definition BuildContainerConfig :: "json_unmarshal \<Rightarrow> json_marshal
    \<Rightarrow> Config \<Rightarrow> 'h \<Rightarrow> 'n \<Rightarrow> ('h, 'n) ContainerConfig" where
  "BuildContainerConfig unmarshal marshal c h n =
     (let labels = Labels c;
          affinities0 = label_list unmarshal labels (SwarmLabelNamespace @ ''.affinities'');
          constraints0 = label_list unmarshal labels (SwarmLabelNamespace @ ''.constraints'');
          reschedulePolicies0 =
            label_list unmarshal labels (SwarmLabelNamespace @ ''.reschedule-policies'');
          checkpointTime0 =
            label_list unmarshal labels (SwarmLabelNamespace @ ''.checkpoint-time'')
      in (case env_loop (Env c)
                (affinities0, constraints0, reschedulePolicies0, checkpointTime0, []) of
            (affinities, constraints, reschedulePolicies, checkpointTime, env) \<Rightarrow>
              \<lparr>Env = env,
               Labels =
                 store_label marshal (SwarmLabelNamespace @ ''.checkpoint-time'') checkpointTime
                  (store_label marshal (SwarmLabelNamespace @ ''.reschedule-policies'')
                      reschedulePolicies
                    (store_label marshal (SwarmLabelNamespace @ ''.constraints'') constraints
                      (store_label marshal (SwarmLabelNamespace @ ''.affinities'') affinities
                         labels))),
               HostConfig = h,
               NetworkingConfig = n\<rparr>))"

definition extractExprs :: "json_unmarshal \<Rightarrow> 'a Config_scheme \<Rightarrow> string \<Rightarrow> string list" where
  "extractExprs unmarshal c k = label_list unmarshal (Labels c) (SwarmLabelNamespace @ ''.'' @ k)"

text \<open>A missing key of a Go map reads as the zero value, the empty string.\<close>

definition SwarmID :: "'a Config_scheme \<Rightarrow> string" where
  "SwarmID c = (case Labels c (SwarmLabelNamespace @ ''.id'') of Some v \<Rightarrow> v | None \<Rightarrow> [])"

fun HasReschedulePolicy_loop :: "string list \<Rightarrow> string \<Rightarrow> bool" where
  "HasReschedulePolicy_loop [] p = False"
| "HasReschedulePolicy_loop (reschedulePolicy # rest) p =
     (if reschedulePolicy = p then True else HasReschedulePolicy_loop rest p)"

definition HasReschedulePolicy :: "json_unmarshal \<Rightarrow> 'a Config_scheme \<Rightarrow> string \<Rightarrow> bool" where
  "HasReschedulePolicy unmarshal c p =
     HasReschedulePolicy_loop (extractExprs unmarshal c ''reschedule-policies'') p"

fun valid_loop :: "string \<Rightarrow> string list \<Rightarrow> bool \<Rightarrow> bool" where
  "valid_loop policy [] valid = valid"
| "valid_loop policy (validReschedulePolicy # rest) valid =
     valid_loop policy rest (if policy = validReschedulePolicy then True else valid)"

text \<open>\<open>Validate\<close> returns \<open>None\<close> for \<^verbatim>\<open>nil\<close> (the configuration is valid).\<close>

definition Validate :: "json_unmarshal \<Rightarrow> 'a Config_scheme \<Rightarrow> error option" where
  "Validate unmarshal c =
     (let reschedulePolicies = extractExprs unmarshal c ''reschedule-policies''
      in if length reschedulePolicies > 1 then Some (Error ''too many reschedule policies'')
         else if length reschedulePolicies = 1 then
           (let valid = valid_loop (hd reschedulePolicies) [''off'', ''on-node-failure'', ''restore''] False
            in if \<not> valid then
                 Some (Error (''invalid reschedule policy: '' @ hd reschedulePolicies))
               else None)
         else None)"

section \<open>Container lookup (cluster/container.go)\<close>

text \<open>
  The fields of \<^verbatim>\<open>Engine\<close> and \<^verbatim>\<open>Container\<close> that the lookup reads. The pointers
  \<^verbatim>\<open>Config\<close> and \<^verbatim>\<open>Engine\<close> of a container in the registry are never \<^verbatim>\<open>nil\<close>; the
  lookup returns one of the containers of the list, or \<open>None\<close> for \<^verbatim>\<open>nil\<close>.
  \<^verbatim>\<open>stringid.TruncateID\<close> belongs to another repository and is a parameter of \<open>Get\<close>; for
  concrete inputs \<open>TruncateID\<close> is its definition as the first 12 bytes of the id.
\<close>

record Engine =
  EngineID :: string
  EngineName :: string

record ('h, 'n) Container =
  ID :: string
  Names :: "string list"
  Config :: "('h, 'n) ContainerConfig"
  Engine :: Engine

definition TruncateID :: "string \<Rightarrow> string" where
  "TruncateID id' = take 12 id'"

fun id_loop :: "(string \<Rightarrow> string) \<Rightarrow> ('h, 'n) Container list \<Rightarrow> string
    \<Rightarrow> ('h, 'n) Container option" where
  "id_loop trunc [] IDOrName = None"
| "id_loop trunc (container # containers) IDOrName =
     (if ID container = IDOrName \<or> trunc (ID container) = IDOrName then Some container
      else id_loop trunc containers IDOrName)"

fun swarm_loop :: "(string \<Rightarrow> string) \<Rightarrow> ('h, 'n) Container list \<Rightarrow> string
    \<Rightarrow> ('h, 'n) Container option" where
  "swarm_loop trunc [] IDOrName = None"
| "swarm_loop trunc (container # containers) IDOrName =
     (let swarmID = SwarmID (Config container)
      in if swarmID = IDOrName \<or> trunc swarmID = IDOrName then Some container
         else swarm_loop trunc containers IDOrName)"

fun names_loop :: "string list \<Rightarrow> Engine \<Rightarrow> string \<Rightarrow> bool \<Rightarrow> bool" where
  "names_loop [] engine IDOrName found = found"
| "names_loop (name # names) engine IDOrName found =
     names_loop names engine IDOrName
       (if name = IDOrName \<or> name = ''/'' @ IDOrName \<or> EngineID engine @ name = IDOrName
           \<or> EngineName engine @ name = IDOrName
        then True else found)"

fun name_loop :: "('h, 'n) Container list \<Rightarrow> string \<Rightarrow> ('h, 'n) Container list
    \<Rightarrow> ('h, 'n) Container list" where
  "name_loop [] IDOrName candidates = candidates"
| "name_loop (container # containers) IDOrName candidates =
     name_loop containers IDOrName
       (if names_loop (Names container) (Engine container) IDOrName False
        then candidates @ [container] else candidates)"

fun id_prefix_loop :: "('h, 'n) Container list \<Rightarrow> string \<Rightarrow> ('h, 'n) Container list
    \<Rightarrow> ('h, 'n) Container list" where
  "id_prefix_loop [] IDOrName candidates = candidates"
| "id_prefix_loop (container # containers) IDOrName candidates =
     id_prefix_loop containers IDOrName
       (if HasPrefix (ID container) IDOrName then candidates @ [container] else candidates)"

fun swarm_prefix_loop :: "('h, 'n) Container list \<Rightarrow> string \<Rightarrow> ('h, 'n) Container list
    \<Rightarrow> ('h, 'n) Container list" where
  "swarm_prefix_loop [] IDOrName candidates = candidates"
| "swarm_prefix_loop (container # containers) IDOrName candidates =
     swarm_prefix_loop containers IDOrName
       (if HasPrefix (SwarmID (Config container)) IDOrName then candidates @ [container]
        else candidates)"

definition Get :: "(string \<Rightarrow> string) \<Rightarrow> ('h, 'n) Container list \<Rightarrow> string
    \<Rightarrow> ('h, 'n) Container option" where
  "Get trunc containers IDOrName =
     (if length IDOrName = 0 then None
      else (case id_loop trunc containers IDOrName of
          Some container \<Rightarrow> Some container
        | None \<Rightarrow>
            (case swarm_loop trunc containers IDOrName of
               Some container \<Rightarrow> Some container
             | None \<Rightarrow>
                 (let candidates = name_loop containers IDOrName []
                  in if length candidates = 1 then Some (hd candidates)
                     else if length candidates > 1 then None
                     else
                       (let candidates' =
                              swarm_prefix_loop containers IDOrName
                                (id_prefix_loop containers IDOrName candidates)
                        in if length candidates' = 1 then Some (hd candidates') else None)))))"

section \<open>The cluster of nodes (the second file of cluster/container.go)\<close>

text \<open>
  This file has its own container type, with a virtual id and the node it runs on; it is
  \<open>VContainer\<close> here, its names \<open>VNames\<close>. The types \<^verbatim>\<open>Node\<close> and \<^verbatim>\<open>Store\<close> and the function
  \<^verbatim>\<open>generateVirtualId\<close> are declared in files that are not at hand, so what the code calls
  of them is collected in a record of parameters. The state \<open>'s\<close> is the store together with
  the random source of \<^verbatim>\<open>generateVirtualId\<close>. The map \<^verbatim>\<open>c.containers\<close> is keyed by the
  node. Locks and log messages are left out: the model is sequential.
\<close>

record Node =
  NodeID :: string
  NodeName :: string
  Addr :: string

record VContainer =
  Id :: string
  VirtualId :: string
  VNames :: "string list"
  Node :: Node

record 's deps =
  IsConnected :: "Node \<Rightarrow> bool"
  NodeContainers :: "Node \<Rightarrow> VContainer list"
  NodeEvents :: "Node \<Rightarrow> error option"
  store_All :: "'s \<Rightarrow> VContainer list"
  store_Replace :: "'s \<Rightarrow> string \<Rightarrow> VContainer \<Rightarrow> 's"
  store_Add :: "'s \<Rightarrow> string \<Rightarrow> VContainer \<Rightarrow> 's"
  generateVirtualId :: "'s \<Rightarrow> string \<times> 's"

record 's Cluster =
  store :: 's
  nodes :: "string \<rightharpoonup> Node"
  containers :: "Node \<rightharpoonup> VContainer list"

definition ErrNodeNotConnected :: error where
  "ErrNodeNotConnected = Error ''node is not connected to docker's REST API''"

definition ErrNodeAlreadyRegistered :: error where
  "ErrNodeAlreadyRegistered = Error ''node was already added to the cluster''"

definition NewCluster :: "'s \<Rightarrow> 's Cluster" where
  "NewCluster st = \<lparr>store = st, nodes = Map.empty, containers = Map.empty\<rparr>"

text \<open>
  \<open>assignVirtualId\<close> returns the store and the container with its virtual id set. The errors
  of \<^verbatim>\<open>Replace\<close> and \<^verbatim>\<open>Add\<close> are only logged by the source.
\<close>

fun restore_loop :: "VContainer list \<Rightarrow> VContainer \<Rightarrow> VContainer option" where
  "restore_loop [] container = None"
| "restore_loop (sc # scs) container =
     (if Id sc = Id container then Some sc else restore_loop scs container)"

definition assignVirtualId :: "'s deps \<Rightarrow> 's \<Rightarrow> VContainer \<Rightarrow> 's \<times> VContainer" where
  "assignVirtualId d st container =
     (case restore_loop (store_All d st) container of
        Some sc \<Rightarrow>
          (let container' = container\<lparr>VirtualId := VirtualId sc\<rparr>
           in (store_Replace d st (VirtualId sc) container', container'))
      | None \<Rightarrow>
          (case generateVirtualId d st of (vid, st') \<Rightarrow>
             (let container' = container\<lparr>VirtualId := vid\<rparr>
              in (store_Add d st' vid container', container'))))"

fun refresh_loop :: "'s deps \<Rightarrow> 's \<Rightarrow> VContainer list \<Rightarrow> 's \<times> VContainer list" where
  "refresh_loop d st [] = (st, [])"
| "refresh_loop d st (container # rest) =
     (case (if length (VirtualId container) = 0 then assignVirtualId d st container
            else (st, container)) of
        (st', container') \<Rightarrow>
          (case refresh_loop d st' rest of (st'', rest') \<Rightarrow> (st'', container' # rest')))"

definition refreshContainers :: "'s deps \<Rightarrow> 's Cluster \<Rightarrow> Node \<Rightarrow> 's Cluster" where
  "refreshContainers d c node =
     (case refresh_loop d (store c) (NodeContainers d node) of
        (st, cs) \<Rightarrow> c\<lparr>store := st, containers := (containers c)(node \<mapsto> cs)\<rparr>)"

text \<open>\<open>AddNode\<close> returns the error (\<open>None\<close> for \<^verbatim>\<open>nil\<close>) and the cluster after the call.\<close>

definition AddNode :: "'s deps \<Rightarrow> 's Cluster \<Rightarrow> Node \<Rightarrow> error option \<times> 's Cluster" where
  "AddNode d c n =
     (if \<not> IsConnected d n then (Some ErrNodeNotConnected, c)
      else if nodes c (NodeID n) \<noteq> None then (Some ErrNodeAlreadyRegistered, c)
      else
        (let c' = c\<lparr>nodes := (nodes c)(NodeID n \<mapsto> n)\<rparr>;
             c'' = refreshContainers d c' n
         in (NodeEvents d n, c'')))"

text \<open>
  A sequence of calls of \<open>AddNode\<close>, each with the state of the outside world at its time;
  the callers go on whatever a call returns.
\<close>

fun AddNodes :: "'s Cluster \<Rightarrow> ('s deps \<times> Node) list \<Rightarrow> 's Cluster" where
  "AddNodes c [] = c"
| "AddNodes c ((d, n) # rest) = AddNodes (snd (AddNode d c n)) rest"

text \<open>
  \<^verbatim>\<open>c.Containers()\<close> walks the map \<^verbatim>\<open>c.containers\<close> in the order Go happens to iterate it,
  here the list \<open>order\<close> of its keys.
\<close>

definition Containers :: "'s Cluster \<Rightarrow> Node list \<Rightarrow> VContainer list" where
  "Containers c order =
     concat (map (\<lambda>node. case containers c node of Some cs \<Rightarrow> cs | None \<Rightarrow> []) order)"

fun vnames_loop :: "string list \<Rightarrow> Node \<Rightarrow> string \<Rightarrow> bool" where
  "vnames_loop [] node IdOrName = False"
| "vnames_loop (name # names) node IdOrName =
     (if name = IdOrName \<or> name = ''/'' @ IdOrName \<or> NodeID node @ name = IdOrName
         \<or> NodeName node @ name = IdOrName
      then True else vnames_loop names node IdOrName)"

fun Container_loop :: "VContainer list \<Rightarrow> string \<Rightarrow> VContainer option" where
  "Container_loop [] IdOrName = None"
| "Container_loop (container # rest) IdOrName =
     (if HasPrefix (VirtualId container) IdOrName then Some container
      else if vnames_loop (VNames container) (Node container) IdOrName then Some container
      else Container_loop rest IdOrName)"

definition Cluster_Container :: "'s Cluster \<Rightarrow> Node list \<Rightarrow> string \<Rightarrow> VContainer option" where
  "Cluster_Container c order IdOrName =
     (if length IdOrName = 0 then None else Container_loop (Containers c order) IdOrName)"

section \<open>Notions used in the statements\<close>

text \<open>
  An environment entry is recognized when it has the form \<^verbatim>\<open><prefix>:<payload>\<close> for one of
  the four prefixes; \<open>payloads p env\<close> are the payloads of the entries of \<open>env\<close> with prefix
  \<open>p\<close>, in order. \<open>moved_label\<close> is what a reserved label holds once the list \<open>new\<close> has
  been appended to the list it held: the encoding of the whole list, and the label as it was
  when the whole list is empty. (\<^verbatim>\<open>json.Marshal\<close> does not fail on a slice of strings; the
  source tests its error all the same, and leaves the label as it was in that case.)
\<close>

definition recognized :: "string \<Rightarrow> bool" where
  "recognized e = (HasPrefix e ''affinity:'' \<or> HasPrefix e ''constraint:''
     \<or> HasPrefix e ''reschedule:'' \<or> HasPrefix e ''checkpoint-time:'')"

definition payloads :: "string \<Rightarrow> string list \<Rightarrow> string list" where
  "payloads p env = map (drop (length p + 1)) (filter (\<lambda>e. HasPrefix e (p @ '':'')) env)"

definition moved_label :: "json_unmarshal \<Rightarrow> json_marshal \<Rightarrow> (string \<rightharpoonup> string) \<Rightarrow> string
    \<Rightarrow> string list \<Rightarrow> string option" where
  "moved_label unmarshal marshal labels name new =
     (let xs = label_list unmarshal labels name @ new
      in if xs = [] then labels name
         else (case marshal xs of Inr l \<Rightarrow> Some l | Inl err \<Rightarrow> labels name))"

text \<open>
  The key and the value of an entry: the parts around the first \<^verbatim>\<open>==\<close> when the entry has
  one, around the first \<^verbatim>\<open>!=\<close> otherwise. An entry is bad when it has neither operator, or
  its key or its value is invalid.
\<close>

definition entry_parts :: "string \<Rightarrow> (string \<times> string) option" where
  "entry_parts entry =
     (case cut ''=='' entry of Some kv \<Rightarrow> Some kv | None \<Rightarrow> cut ''!='' entry)"

definition bad_entry :: "string \<Rightarrow> bool" where
  "bad_entry entry =
     (case entry_parts entry of
        None \<Rightarrow> True
      | Some (k, v) \<Rightarrow> \<not> key_valid k \<or> \<not> value_valid v)"

text \<open>
  How a query can match a container: as its exact or truncated id or swarm id, as one of its
  names (the name itself, the name without its leading slash, or the name behind the id or the
  name of its engine), and as a prefix of its id or of its swarm id. \<open>prefix_candidates\<close> lists
  the matches by id prefix, then the matches by swarm id prefix.
\<close>

definition id_match :: "(string \<Rightarrow> string) \<Rightarrow> ('h, 'n) Container \<Rightarrow> string \<Rightarrow> bool" where
  "id_match trunc c q =
     (ID c = q \<or> trunc (ID c) = q \<or> SwarmID (Config c) = q \<or> trunc (SwarmID (Config c)) = q)"

definition name_match :: "('h, 'n) Container \<Rightarrow> string \<Rightarrow> bool" where
  "name_match c q =
     (\<exists>name \<in> set (Names c). name = q \<or> name = ''/'' @ q \<or> EngineID (Engine c) @ name = q
        \<or> EngineName (Engine c) @ name = q)"

definition prefix_candidates :: "('h, 'n) Container list \<Rightarrow> string \<Rightarrow> ('h, 'n) Container list" where
  "prefix_candidates cs q =
     filter (\<lambda>c. HasPrefix (ID c) q) cs @ filter (\<lambda>c. HasPrefix (SwarmID (Config c)) q) cs"

definition vname_match :: "VContainer \<Rightarrow> string \<Rightarrow> bool" where
  "vname_match c q =
     (\<exists>name \<in> set (VNames c). name = q \<or> name = ''/'' @ q \<or> NodeID (Node c) @ name = q
        \<or> NodeName (Node c) @ name = q)"

text \<open>Example data: a container with the fields the lookup reads, and an outside world.\<close>

definition mk_container :: "string \<Rightarrow> string list \<Rightarrow> (string \<rightharpoonup> string) \<Rightarrow> string \<Rightarrow> string
    \<Rightarrow> (unit, unit) Container" where
  "mk_container i names labels engine_id engine_name =
     \<lparr>ID = i, Names = names,
      Config = \<lparr>Env = [], Labels = labels, HostConfig = (), NetworkingConfig = ()\<rparr>,
      Engine = \<lparr>EngineID = engine_id, EngineName = engine_name\<rparr>\<rparr>"

definition example_deps :: "unit deps" where
  "example_deps =
     \<lparr>IsConnected = (\<lambda>n. Addr n \<noteq> []),
      NodeContainers = (\<lambda>n. []),
      NodeEvents = (\<lambda>n. None),
      store_All = (\<lambda>st. []),
      store_Replace = (\<lambda>st vid c. st),
      store_Add = (\<lambda>st vid c. st),
      generateVirtualId = (\<lambda>st. (''0f0f0f0f0f0f'', st))\<rparr>"

section \<open>Properties of matching\<close>

lemma Match_loop_fst:
  "fst (Match_loop rx v whats logged) = (\<exists>w \<in> set whats. rx v w = Inr True)"
  by (induction whats arbitrary: logged) (auto split: sum.splits bool.splits)

lemma Match_loop_all_errors:
  "\<forall>w \<in> set whats. \<exists>err. rx v w = Inl err \<Longrightarrow>
   Match_loop rx v whats logged = (False, logged @ map (\<lambda>w. projl (rx v w)) whats)"
  by (induction whats arbitrary: logged) (auto split: sum.splits bool.splits)

lemmas rx_eval = regexp_MatchString_def unmodelled_char_def op_rep_def

text \<open>
  Claim C1, as amended. For an expression with operator \<open>EQ\<close> and one candidate \<open>w\<close>,
  \<open>Match\<close> reports a match exactly when \<^verbatim>\<open>regexp.MatchString(value, w)\<close> does: the whole value
  is the pattern, whatever its first character, and a value that does not compile matches
  nothing. There is no anchoring, no translation of globs and no folding of case beyond what
  the pattern itself asks of the library.
\<close>

theorem Match_EQ_single:
  "expr_operator e = EQ \<Longrightarrow> fst (Match rx e [w]) = (rx (expr_value e) w = Inr True)"
  by (simp add: Match_def split_beta Match_loop_fst del: Match_loop.simps)

theorem Match_EQ_single_witness:
  "fst (Match regexp_MatchString
      \<lparr>expr_key = ''node'', expr_operator = EQ, expr_value = ''^foo$''\<rparr> [''foo''])
   \<and> regexp_MatchString ''^foo$'' ''foo'' = Inr True
   \<and> \<not> fst (Match regexp_MatchString
      \<lparr>expr_key = ''node'', expr_operator = EQ, expr_value = ''^foo$''\<rparr> [''food''])
   \<and> regexp_MatchString ''^foo$'' ''food'' = Inr False"
  using Match_EQ_single [of "\<lparr>expr_key = ''node'', expr_operator = EQ, expr_value = ''^foo$''\<rparr>"
      regexp_MatchString "''foo''"]
    Match_EQ_single [of "\<lparr>expr_key = ''node'', expr_operator = EQ, expr_value = ''^foo$''\<rparr>"
      regexp_MatchString "''food''"]
  by (simp add: rx_eval)

text \<open>
  The claim as the specification states it fails on its own examples: the value \<^verbatim>\<open>/^foo$\<close>
  does not match \<^verbatim>\<open>foo\<close> (the pattern asks for a slash before the start of the text), the
  value \<^verbatim>\<open>*\<close> does not compile and so matches no candidate, the value \<^verbatim>\<open>foo\<close> does not match
  \<^verbatim>\<open>FOO\<close>, and it does match \<^verbatim>\<open>seafood\<close>, which is not equal to it.
\<close>

theorem Match_EQ_spec_counterexample:
  "\<not> fst (Match regexp_MatchString
      \<lparr>expr_key = ''node'', expr_operator = EQ, expr_value = ''/^foo$''\<rparr> [''foo''])
   \<and> \<not> fst (Match regexp_MatchString
      \<lparr>expr_key = ''node'', expr_operator = EQ, expr_value = ''*''\<rparr> [''foo''])
   \<and> \<not> fst (Match regexp_MatchString
      \<lparr>expr_key = ''node'', expr_operator = EQ, expr_value = ''foo''\<rparr> [''FOO''])
   \<and> fst (Match regexp_MatchString
      \<lparr>expr_key = ''node'', expr_operator = EQ, expr_value = ''foo''\<rparr> [''seafood''])"
  by (simp add: Match_def EQ_def rx_eval)

text \<open>
  Claim C2, as amended. For every list of candidates, \<open>Match\<close> with \<open>EQ\<close> is true iff some
  candidate matches the value, and \<open>Match\<close> with \<open>NOTEQ\<close> is true iff no candidate matches
  the value.
\<close>

theorem Match_operator:
  "(expr_operator e = EQ \<longrightarrow>
      fst (Match rx e whats) = (\<exists>w \<in> set whats. rx (expr_value e) w = Inr True))
   \<and> (expr_operator e = NOTEQ \<longrightarrow>
      fst (Match rx e whats) = (\<not> (\<exists>w \<in> set whats. rx (expr_value e) w = Inr True)))"
  by (simp add: Match_def split_beta Match_loop_fst EQ_def NOTEQ_def del: Match_loop.simps)

theorem Match_operator_witness:
  "fst (Match regexp_MatchString
      \<lparr>expr_key = ''container'', expr_operator = EQ, expr_value = ''foo''\<rparr> [''bar'', ''foo''])
   \<and> \<not> fst (Match regexp_MatchString
      \<lparr>expr_key = ''container'', expr_operator = NOTEQ, expr_value = ''foo''\<rparr> [''bar'', ''foo''])
   \<and> fst (Match regexp_MatchString
      \<lparr>expr_key = ''container'', expr_operator = NOTEQ, expr_value = ''foo''\<rparr> [''bar'', ''baz''])"
  using Match_operator [of "\<lparr>expr_key = ''container'', expr_operator = EQ, expr_value = ''foo''\<rparr>"
      regexp_MatchString "[''bar'', ''foo'']"]
    Match_operator [of "\<lparr>expr_key = ''container'', expr_operator = NOTEQ, expr_value = ''foo''\<rparr>"
      regexp_MatchString "[''bar'', ''foo'']"]
    Match_operator [of "\<lparr>expr_key = ''container'', expr_operator = NOTEQ, expr_value = ''foo''\<rparr>"
      regexp_MatchString "[''bar'', ''baz'']"]
  by (simp add: EQ_def NOTEQ_def rx_eval)

text \<open>
  With \<open>NOTEQ\<close> it is not enough that some candidate fails to match: the candidate \<^verbatim>\<open>bar\<close>
  does not match the value \<^verbatim>\<open>foo\<close>, yet \<open>Match\<close> on the candidates \<^verbatim>\<open>foo\<close>, \<^verbatim>\<open>bar\<close> is false.
\<close>

theorem Match_NOTEQ_some_counterexample:
  "regexp_MatchString ''foo'' ''bar'' = Inr False
   \<and> \<not> fst (Match regexp_MatchString
        \<lparr>expr_key = ''container'', expr_operator = NOTEQ, expr_value = ''foo''\<rparr> [''foo'', ''bar''])"
  by (simp add: Match_def EQ_def NOTEQ_def rx_eval)

text \<open>
  Claim C8, as amended. When the value fails to compile for every candidate, \<open>Match\<close> returns
  normally, every error is logged, in the order of the candidates, and no candidate counts as
  a match: the result is false for \<open>EQ\<close> and true for \<open>NOTEQ\<close>.
\<close>

theorem Match_compile_error:
  assumes "\<forall>w \<in> set whats. \<exists>err. rx (expr_value e) w = Inl err"
  shows "Match rx e whats =
     (expr_operator e = NOTEQ, map (\<lambda>w. projl (rx (expr_value e) w)) whats)"
  using Match_loop_all_errors [of whats rx "expr_value e" "[]"] assms
  by (auto simp add: Match_def EQ_def NOTEQ_def)

theorem Match_compile_error_witness:
  "regexp_MatchString ''*'' ''foo''
     = Inl (SyntaxError ''missing argument to repetition operator'' ''*'')
   \<and> Match regexp_MatchString
        \<lparr>expr_key = ''node'', expr_operator = EQ, expr_value = ''*''\<rparr> [''foo'']
       = (False, [SyntaxError ''missing argument to repetition operator'' ''*''])
   \<and> Match regexp_MatchString
        \<lparr>expr_key = ''node'', expr_operator = NOTEQ, expr_value = ''*''\<rparr> [''foo'']
       = (True, [SyntaxError ''missing argument to repetition operator'' ''*''])"
proof -
  have err: "\<forall>w \<in> set [''foo'']. \<exists>err. regexp_MatchString ''*'' w = Inl err"
    by (simp add: rx_eval)
  show ?thesis
    using Match_compile_error [of "[''foo'']" regexp_MatchString
        "\<lparr>expr_key = ''node'', expr_operator = EQ, expr_value = ''*''\<rparr>"]
      Match_compile_error [of "[''foo'']" regexp_MatchString
        "\<lparr>expr_key = ''node'', expr_operator = NOTEQ, expr_value = ''*''\<rparr>"]
      err
    by (simp add: EQ_def NOTEQ_def rx_eval)
qed

text \<open>
  With \<open>NOTEQ\<close> the result is not false: the value \<^verbatim>\<open>*\<close> does not compile, and \<open>Match\<close>
  with \<open>NOTEQ\<close> returns true.
\<close>

theorem Match_compile_error_NOTEQ_counterexample:
  "regexp_MatchString ''*'' ''foo''
     = Inl (SyntaxError ''missing argument to repetition operator'' ''*'')
   \<and> fst (Match regexp_MatchString
        \<lparr>expr_key = ''node'', expr_operator = NOTEQ, expr_value = ''*''\<rparr> [''foo''])"
  by (simp add: Match_def EQ_def NOTEQ_def rx_eval)

section \<open>Properties of parsing\<close>

lemma ops_loop_fails: "(\<exists>err. ops_loop entry 0 OPERATORS = Inl err) = bad_entry entry"
  by (auto simp add: OPERATORS_def Contains_def SplitN2_def bad_entry_def entry_parts_def
      split: option.splits)

lemma parseExprs_loop_fails:
  "(\<exists>err. parseExprs_loop k env exprs = Inl err) =
     (\<exists>e \<in> set env. HasPrefix e (k @ '':'') \<and> bad_entry (TrimPrefix e (k @ '':'')))"
proof (induction env arbitrary: exprs)
  case Nil
  then show ?case by simp
next
  case (Cons e env)
  show ?case
  proof (cases "HasPrefix e (k @ '':'')")
    case False
    then show ?thesis using Cons.IH by simp
  next
    case True
    show ?thesis
    proof (cases "ops_loop (TrimPrefix e (k @ '':'')) 0 OPERATORS")
      case (Inl err)
      then have "bad_entry (TrimPrefix e (k @ '':''))"
        using ops_loop_fails [of "TrimPrefix e (k @ '':'')"] by auto
      then show ?thesis using True Inl by simp
    next
      case (Inr x)
      then have "\<not> bad_entry (TrimPrefix e (k @ '':''))"
        using ops_loop_fails [of "TrimPrefix e (k @ '':'')"] by auto
      then show ?thesis using True Inr Cons.IH [of "exprs @ [x]"] by simp
    qed
  qed
qed

lemma key_valid_digit: "ascii_digit c \<Longrightarrow> \<not> key_valid (c # s)"
  by (auto simp add: key_valid_def key_first_class_def fold_letter_def ascii_digit_def
      ascii_upper_def ascii_lower_def)

lemmas parse_eval = bad_entry_def entry_parts_def key_valid_def value_valid_def
  key_first_class_def key_class_def value_class_def fold_letter_def
  ascii_digit_def ascii_upper_def ascii_lower_def HasPrefix_def TrimPrefix_def

text \<open>
  Claim C4. \<open>parseExprs\<close> returns an error, and so no list of expressions, exactly when some
  entry that carries the prefix is bad: it contains neither operator, or its key or its value
  is invalid. One bad entry fails the whole parse, whatever the other entries are. The empty
  value is invalid, and so is every key that starts with a digit.
\<close>

theorem parseExprs_rejects:
  "((\<exists>err. parseExprs k env = Inl err) =
      (\<exists>e \<in> set env. HasPrefix e (k @ '':'') \<and> bad_entry (TrimPrefix e (k @ '':''))))
   \<and> \<not> value_valid []
   \<and> (ascii_digit c \<longrightarrow> \<not> key_valid (c # s))"
  using parseExprs_loop_fails [of k env "[]"] key_valid_digit [of c s]
  by (simp add: parseExprs_def value_valid_def)

theorem parseExprs_rejects_witness:
  "(\<exists>err. parseExprs ''constraint''
        [''constraint:region==us'', ''constraint:1foo==bar'', ''affinity:x''] = Inl err)
   \<and> (\<exists>err. parseExprs ''constraint'' [''constraint:region=='', ''constraint:region==us''] = Inl err)
   \<and> (\<exists>err. parseExprs ''constraint'' [''constraint:region==us'', ''constraint:region=us''] = Inl err)
   \<and> \<not> (\<exists>err. parseExprs ''constraint'' [''constraint:region==us'', ''affinity:x''] = Inl err)"
  using parseExprs_rejects [of "''constraint''"
      "[''constraint:region==us'', ''constraint:1foo==bar'', ''affinity:x'']"]
    parseExprs_rejects [of "''constraint''" "[''constraint:region=='', ''constraint:region==us'']"]
    parseExprs_rejects [of "''constraint''" "[''constraint:region==us'', ''constraint:region=us'']"]
    parseExprs_rejects [of "''constraint''" "[''constraint:region==us'', ''affinity:x'']"]
  by (simp add: parse_eval)

section \<open>Properties of the container configuration\<close>

lemma cut_colon_Some:
  "cut '':'' e = Some (k, v) \<Longrightarrow> e = k @ '':'' @ v \<and> CHR '':'' \<notin> set k"
  by (induction e arbitrary: k) (auto simp: HasPrefix_def split: if_splits option.splits)

lemma cut_colon_append:
  "CHR '':'' \<notin> set p \<Longrightarrow> cut '':'' (p @ '':'' @ v) = Some (p, v)"
  by (induction p) (auto simp: HasPrefix_def)

lemma HasPrefix_append: "HasPrefix s p = (\<exists>v. s = p @ v)"
  unfolding HasPrefix_def
  by (metis append_eq_conv_conj append_take_drop_id)

lemma parseEnv_key:
  assumes "CHR '':'' \<notin> set p"
  shows "(case parseEnv e of (ok, k, v) \<Rightarrow> ok \<and> k = p) = HasPrefix e (p @ '':'')"
    and "HasPrefix e (p @ '':'') \<Longrightarrow> parseEnv e = (True, p, drop (length p + 1) e)"
proof -
  show 2: "parseEnv e = (True, p, drop (length p + 1) e)" if "HasPrefix e (p @ '':'')"
  proof -
    from that obtain v where "e = p @ '':'' @ v" by (auto simp: HasPrefix_append)
    then show ?thesis using cut_colon_append [OF assms, of v]
      by (simp add: parseEnv_def SplitN2_def)
  qed
  show "(case parseEnv e of (ok, k, v) \<Rightarrow> ok \<and> k = p) = HasPrefix e (p @ '':'')"
  proof (cases "cut '':'' e")
    case None
    have "\<not> HasPrefix e (p @ '':'')"
      using 2 None by (auto simp: parseEnv_def SplitN2_def)
    then show ?thesis using None by (simp add: parseEnv_def SplitN2_def)
  next
    case (Some kv)
    obtain k v where kv: "kv = (k, v)" by (cases kv)
    have e: "e = k @ '':'' @ v" "CHR '':'' \<notin> set k"
      using cut_colon_Some Some kv by auto
    show ?thesis
    proof (cases "k = p")
      case True
      then show ?thesis using Some kv e by (simp add: parseEnv_def SplitN2_def HasPrefix_append)
    next
      case False
      have "\<not> HasPrefix e (p @ '':'')"
        using 2 Some kv False by (auto simp: parseEnv_def SplitN2_def)
      then show ?thesis using Some kv False by (simp add: parseEnv_def SplitN2_def)
    qed
  qed
qed

lemma env_loop_eq:
  "env_loop es (a, c, r, t, env) =
     (a @ payloads ''affinity'' es, c @ payloads ''constraint'' es,
      r @ payloads ''reschedule'' es, t @ payloads ''checkpoint-time'' es,
      env @ filter (\<lambda>e. \<not> recognized e) es)"
proof (induction es arbitrary: a c r t env)
  case Nil
  then show ?case by (simp add: payloads_def)
next
  case (Cons e es)
  have k1: "(case parseEnv e of (ok, k, v) \<Rightarrow> ok \<and> k = ''affinity'') = HasPrefix e ''affinity:''"
    using parseEnv_key(1) [of "''affinity''" e] by simp
  have k2: "(case parseEnv e of (ok, k, v) \<Rightarrow> ok \<and> k = ''constraint'') = HasPrefix e ''constraint:''"
    using parseEnv_key(1) [of "''constraint''" e] by simp
  have k3: "(case parseEnv e of (ok, k, v) \<Rightarrow> ok \<and> k = ''reschedule'') = HasPrefix e ''reschedule:''"
    using parseEnv_key(1) [of "''reschedule''" e] by simp
  have k4: "(case parseEnv e of (ok, k, v) \<Rightarrow> ok \<and> k = ''checkpoint-time'')
      = HasPrefix e ''checkpoint-time:''"
    using parseEnv_key(1) [of "''checkpoint-time''" e] by simp
  obtain ok k v where pe: "parseEnv e = (ok, k, v)" by (cases "parseEnv e")
  have v1: "HasPrefix e ''affinity:'' \<Longrightarrow> v = drop (length ''affinity'' + 1) e"
    using parseEnv_key(2) [of "''affinity''" e] pe by (simp del: length_Cons)
  have v2: "HasPrefix e ''constraint:'' \<Longrightarrow> v = drop (length ''constraint'' + 1) e"
    using parseEnv_key(2) [of "''constraint''" e] pe by (simp del: length_Cons)
  have v3: "HasPrefix e ''reschedule:'' \<Longrightarrow> v = drop (length ''reschedule'' + 1) e"
    using parseEnv_key(2) [of "''reschedule''" e] pe by (simp del: length_Cons)
  have v4: "HasPrefix e ''checkpoint-time:'' \<Longrightarrow> v = drop (length ''checkpoint-time'' + 1) e"
    using parseEnv_key(2) [of "''checkpoint-time''" e] pe by (simp del: length_Cons)
  have excl: "HasPrefix e ''affinity:'' \<Longrightarrow> \<not> HasPrefix e ''constraint:''"
    "HasPrefix e ''affinity:'' \<Longrightarrow> \<not> HasPrefix e ''reschedule:''"
    "HasPrefix e ''affinity:'' \<Longrightarrow> \<not> HasPrefix e ''checkpoint-time:''"
    "HasPrefix e ''constraint:'' \<Longrightarrow> \<not> HasPrefix e ''reschedule:''"
    "HasPrefix e ''constraint:'' \<Longrightarrow> \<not> HasPrefix e ''checkpoint-time:''"
    "HasPrefix e ''reschedule:'' \<Longrightarrow> \<not> HasPrefix e ''checkpoint-time:''"
    by (auto simp: HasPrefix_append)
  show ?case
    using k1 k2 k3 k4 v1 v2 v3 v4 excl
    by (simp add: pe Cons.IH payloads_def recognized_def)
qed

lemma store_label_other:
  "l \<noteq> name \<Longrightarrow> store_label marshal name xs labels l = labels l"
  by (simp add: store_label_def split: sum.splits)

lemma store_label_same:
  "store_label marshal name xs labels name =
     (if xs = [] then labels name
      else (case marshal xs of Inr l \<Rightarrow> Some l | Inl err \<Rightarrow> labels name))"
  by (simp add: store_label_def split: sum.splits)

lemmas json_eval = json_Unmarshal_def json_Marshal_def json_plain_def dquote_def

text \<open>
  Claim C3. \<open>BuildContainerConfig\<close> keeps in \<open>Env\<close> the entries that are not recognized,
  unchanged and in their order, so no entry of the result has one of the four prefixes. Each
  of the four reserved labels holds the encoding of the list it held before followed by the
  payloads removed for its prefix, in their order. Every other label and the host and
  networking configurations are unchanged.
\<close>

theorem BuildContainerConfig_moves_env:
  "Env (BuildContainerConfig um ma c h n) = filter (\<lambda>e. \<not> recognized e) (Env c)
   \<and> (\<forall>e \<in> set (Env (BuildContainerConfig um ma c h n)). \<not> recognized e)
   \<and> Labels (BuildContainerConfig um ma c h n) ''com.docker.swarm.affinities''
       = moved_label um ma (Labels c) ''com.docker.swarm.affinities''
           (payloads ''affinity'' (Env c))
   \<and> Labels (BuildContainerConfig um ma c h n) ''com.docker.swarm.constraints''
       = moved_label um ma (Labels c) ''com.docker.swarm.constraints''
           (payloads ''constraint'' (Env c))
   \<and> Labels (BuildContainerConfig um ma c h n) ''com.docker.swarm.reschedule-policies''
       = moved_label um ma (Labels c) ''com.docker.swarm.reschedule-policies''
           (payloads ''reschedule'' (Env c))
   \<and> Labels (BuildContainerConfig um ma c h n) ''com.docker.swarm.checkpoint-time''
       = moved_label um ma (Labels c) ''com.docker.swarm.checkpoint-time''
           (payloads ''checkpoint-time'' (Env c))
   \<and> (\<forall>l. l \<notin> {''com.docker.swarm.affinities'', ''com.docker.swarm.constraints'',
              ''com.docker.swarm.reschedule-policies'', ''com.docker.swarm.checkpoint-time''}
        \<longrightarrow> Labels (BuildContainerConfig um ma c h n) l = Labels c l)
   \<and> HostConfig (BuildContainerConfig um ma c h n) = h
   \<and> NetworkingConfig (BuildContainerConfig um ma c h n) = n"
proof -
  let ?B = "BuildContainerConfig um ma c h n"
  have env: "Env ?B = filter (\<lambda>e. \<not> recognized e) (Env c)"
    by (simp add: BuildContainerConfig_def Let_def env_loop_eq)
  have l1: "Labels ?B ''com.docker.swarm.affinities''
       = moved_label um ma (Labels c) ''com.docker.swarm.affinities''
           (payloads ''affinity'' (Env c))"
    by (simp add: BuildContainerConfig_def Let_def env_loop_eq SwarmLabelNamespace_def
        store_label_other store_label_same moved_label_def split: sum.splits)
  have l2: "Labels ?B ''com.docker.swarm.constraints''
       = moved_label um ma (Labels c) ''com.docker.swarm.constraints''
           (payloads ''constraint'' (Env c))"
    by (simp add: BuildContainerConfig_def Let_def env_loop_eq SwarmLabelNamespace_def
        store_label_other store_label_same moved_label_def split: sum.splits)
  have l3: "Labels ?B ''com.docker.swarm.reschedule-policies''
       = moved_label um ma (Labels c) ''com.docker.swarm.reschedule-policies''
           (payloads ''reschedule'' (Env c))"
    by (simp add: BuildContainerConfig_def Let_def env_loop_eq SwarmLabelNamespace_def
        store_label_other store_label_same moved_label_def split: sum.splits)
  have l4: "Labels ?B ''com.docker.swarm.checkpoint-time''
       = moved_label um ma (Labels c) ''com.docker.swarm.checkpoint-time''
           (payloads ''checkpoint-time'' (Env c))"
    by (simp add: BuildContainerConfig_def Let_def env_loop_eq SwarmLabelNamespace_def
        store_label_other store_label_same moved_label_def split: sum.splits)
  have other: "Labels ?B l = Labels c l"
    if "l \<notin> {''com.docker.swarm.affinities'', ''com.docker.swarm.constraints'',
              ''com.docker.swarm.reschedule-policies'', ''com.docker.swarm.checkpoint-time''}"
    for l
    using that
    by (simp add: BuildContainerConfig_def Let_def env_loop_eq SwarmLabelNamespace_def
        store_label_other)
  have hn: "HostConfig ?B = h" "NetworkingConfig ?B = n"
    by (simp_all add: BuildContainerConfig_def Let_def env_loop_eq)
  from env have none: "\<forall>e \<in> set (Env ?B). \<not> recognized e" by simp
  from env none l1 l2 l3 l4 other hn show ?thesis by blast
qed

theorem BuildContainerConfig_moves_env_witness:
  "Env (BuildContainerConfig json_Unmarshal json_Marshal
      \<lparr>Env = [''affinity:container==redis'', ''PATH=/bin:/usr/bin'', ''constraint:region==us'',
               ''FOO'', ''reschedule:on-node-failure''],
        Labels = [''com.docker.swarm.affinities'' \<mapsto> ''['' @ [dquote] @ ''image==nginx'' @ [dquote] @ '']'']\<rparr>
      () ())
     = [''PATH=/bin:/usr/bin'', ''FOO'']
   \<and> Labels (BuildContainerConfig json_Unmarshal json_Marshal
      \<lparr>Env = [''affinity:container==redis'', ''PATH=/bin:/usr/bin'', ''constraint:region==us'',
               ''FOO'', ''reschedule:on-node-failure''],
        Labels = [''com.docker.swarm.affinities'' \<mapsto> ''['' @ [dquote] @ ''image==nginx'' @ [dquote] @ '']'']\<rparr>
      () ()) ''com.docker.swarm.affinities''
     = Some (''['' @ [dquote] @ ''image==nginx'' @ [dquote] @ '','' @ [dquote]
          @ ''container==redis'' @ [dquote] @ '']'')
   \<and> Labels (BuildContainerConfig json_Unmarshal json_Marshal
      \<lparr>Env = [''affinity:container==redis'', ''PATH=/bin:/usr/bin'', ''constraint:region==us'',
               ''FOO'', ''reschedule:on-node-failure''],
        Labels = [''com.docker.swarm.affinities'' \<mapsto> ''['' @ [dquote] @ ''image==nginx'' @ [dquote] @ '']'']\<rparr>
      () ()) ''com.docker.swarm.constraints''
     = Some (''['' @ [dquote] @ ''region==us'' @ [dquote] @ '']'')
   \<and> Labels (BuildContainerConfig json_Unmarshal json_Marshal
      \<lparr>Env = [''affinity:container==redis'', ''PATH=/bin:/usr/bin'', ''constraint:region==us'',
               ''FOO'', ''reschedule:on-node-failure''],
        Labels = [''com.docker.swarm.affinities'' \<mapsto> ''['' @ [dquote] @ ''image==nginx'' @ [dquote] @ '']'']\<rparr>
      () ()) ''com.docker.swarm.checkpoint-time''
     = None"
  using BuildContainerConfig_moves_env [of json_Unmarshal json_Marshal
      "\<lparr>Env = [''affinity:container==redis'', ''PATH=/bin:/usr/bin'', ''constraint:region==us'',
               ''FOO'', ''reschedule:on-node-failure''],
        Labels = [''com.docker.swarm.affinities'' \<mapsto> ''['' @ [dquote] @ ''image==nginx'' @ [dquote] @ '']'']\<rparr>"
      "()" "()"]
  by (simp add: recognized_def HasPrefix_def payloads_def moved_label_def label_list_def json_eval)

lemma HasReschedulePolicy_loop_set: "HasReschedulePolicy_loop xs p = (p \<in> set xs)"
  by (induction xs) auto

lemma valid_loop_set: "valid_loop p xs valid = (valid \<or> p \<in> set xs)"
  by (induction xs arbitrary: valid) auto

text \<open>
  Claim C7, as amended. \<open>Validate\<close> returns the error \<^verbatim>\<open>too many reschedule policies\<close> when
  the list of reschedule policies has more than one entry. With exactly one policy it succeeds
  iff the policy is \<^verbatim>\<open>off\<close>, \<^verbatim>\<open>on-node-failure\<close> or \<^verbatim>\<open>restore\<close>.
  \<open>HasReschedulePolicy\<close> is true iff the policy is in the list read from the label.
\<close>

theorem Validate_reschedule:
  "(length (extractExprs um c ''reschedule-policies'') > 1 \<longrightarrow>
      Validate um c = Some (Error ''too many reschedule policies''))
   \<and> (extractExprs um c ''reschedule-policies'' = [p] \<longrightarrow>
      (Validate um c = None) = (p \<in> {''off'', ''on-node-failure'', ''restore''}))
   \<and> HasReschedulePolicy um c q = (q \<in> set (extractExprs um c ''reschedule-policies''))"
  by (auto simp add: Validate_def Let_def valid_loop_set HasReschedulePolicy_def
      HasReschedulePolicy_loop_set simp del: valid_loop.simps)

theorem Validate_reschedule_witness:
  "HasReschedulePolicy json_Unmarshal
      \<lparr>Env = [], Labels = [''com.docker.swarm.reschedule-policies''
          \<mapsto> ''['' @ [dquote] @ ''on-node-failure'' @ [dquote] @ '']'']\<rparr> ''on-node-failure''
   \<and> Validate json_Unmarshal
      \<lparr>Env = [], Labels = [''com.docker.swarm.reschedule-policies''
          \<mapsto> ''['' @ [dquote] @ ''on-node-failure'' @ [dquote] @ '']'']\<rparr> = None
   \<and> Validate json_Unmarshal
      \<lparr>Env = [], Labels = [''com.docker.swarm.reschedule-policies''
          \<mapsto> ''['' @ [dquote] @ ''a'' @ [dquote] @ '','' @ [dquote] @ ''b'' @ [dquote] @ '']'']\<rparr>
      = Some (Error ''too many reschedule policies'')
   \<and> Validate json_Unmarshal
      \<lparr>Env = [], Labels = [''com.docker.swarm.reschedule-policies''
          \<mapsto> ''['' @ [dquote] @ ''always'' @ [dquote] @ '']'']\<rparr> \<noteq> None"
proof -
  let ?c1 = "\<lparr>Env = [], Labels = [''com.docker.swarm.reschedule-policies''
          \<mapsto> ''['' @ [dquote] @ ''on-node-failure'' @ [dquote] @ '']'']\<rparr>"
  let ?c2 = "\<lparr>Env = [], Labels = [''com.docker.swarm.reschedule-policies''
          \<mapsto> ''['' @ [dquote] @ ''a'' @ [dquote] @ '','' @ [dquote] @ ''b'' @ [dquote] @ '']'']\<rparr>"
  let ?c3 = "\<lparr>Env = [], Labels = [''com.docker.swarm.reschedule-policies''
          \<mapsto> ''['' @ [dquote] @ ''always'' @ [dquote] @ '']'']\<rparr>"
  have 1: "extractExprs json_Unmarshal ?c1 ''reschedule-policies'' = [''on-node-failure'']"
    by (simp add: extractExprs_def label_list_def SwarmLabelNamespace_def json_eval)
  have 2: "extractExprs json_Unmarshal ?c2 ''reschedule-policies'' = [''a'', ''b'']"
    by (simp add: extractExprs_def label_list_def SwarmLabelNamespace_def json_eval)
  have 3: "extractExprs json_Unmarshal ?c3 ''reschedule-policies'' = [''always'']"
    by (simp add: extractExprs_def label_list_def SwarmLabelNamespace_def json_eval)
  have a: "HasReschedulePolicy json_Unmarshal ?c1 ''on-node-failure''"
    "Validate json_Unmarshal ?c1 = None"
    using Validate_reschedule [of json_Unmarshal ?c1 "''on-node-failure''" "''on-node-failure''",
        unfolded 1]
    by simp_all
  have b: "Validate json_Unmarshal ?c2 = Some (Error ''too many reschedule policies'')"
    using Validate_reschedule [of json_Unmarshal ?c2 "''a''" "''a''", unfolded 2]
    by simp
  have c: "Validate json_Unmarshal ?c3 \<noteq> None"
    using Validate_reschedule [of json_Unmarshal ?c3 "''always''" "''always''", unfolded 3]
    by simp
  from a b c show ?thesis by blast
qed

text \<open>
  The policy \<^verbatim>\<open>restore\<close> is neither \<^verbatim>\<open>off\<close> nor \<^verbatim>\<open>on-node-failure\<close>, and a
  configuration whose only policy it is validates.
\<close>

theorem Validate_restore_counterexample:
  "''restore'' \<notin> {''off'', ''on-node-failure''}
   \<and> extractExprs json_Unmarshal
      \<lparr>Env = [], Labels = [''com.docker.swarm.reschedule-policies''
          \<mapsto> ''['' @ [dquote] @ ''restore'' @ [dquote] @ '']'']\<rparr> ''reschedule-policies''
      = [''restore'']
   \<and> Validate json_Unmarshal
      \<lparr>Env = [], Labels = [''com.docker.swarm.reschedule-policies''
          \<mapsto> ''['' @ [dquote] @ ''restore'' @ [dquote] @ '']'']\<rparr> = None"
  by (simp add: Validate_def extractExprs_def label_list_def SwarmLabelNamespace_def json_eval)

section \<open>Properties of the container lookup\<close>

lemma id_loop_None:
  "(id_loop trunc cs q = None) = (\<forall>c \<in> set cs. \<not> (ID c = q \<or> trunc (ID c) = q))"
  by (induction cs) auto

lemma swarm_loop_None:
  "(swarm_loop trunc cs q = None) =
     (\<forall>c \<in> set cs. \<not> (SwarmID (Config c) = q \<or> trunc (SwarmID (Config c)) = q))"
  by (induction cs) (auto simp: Let_def)

lemma names_loop_eq:
  "names_loop names engine q found =
     (found \<or> (\<exists>name \<in> set names. name = q \<or> name = ''/'' @ q \<or> EngineID engine @ name = q
        \<or> EngineName engine @ name = q))"
  by (induction names arbitrary: found) auto

lemma name_loop_eq:
  "name_loop cs q candidates = candidates @ filter (\<lambda>c. name_match c q) cs"
  by (induction cs arbitrary: candidates) (auto simp: names_loop_eq name_match_def)

lemma id_prefix_loop_eq:
  "id_prefix_loop cs q candidates = candidates @ filter (\<lambda>c. HasPrefix (ID c) q) cs"
  by (induction cs arbitrary: candidates) auto

lemma swarm_prefix_loop_eq:
  "swarm_prefix_loop cs q candidates =
     candidates @ filter (\<lambda>c. HasPrefix (SwarmID (Config c)) q) cs"
  by (induction cs arbitrary: candidates) auto

lemma Get_stages:
  assumes "q \<noteq> []" and "\<forall>c \<in> set cs. \<not> id_match trunc c q"
  shows "Get trunc cs q =
     (if length (filter (\<lambda>c. name_match c q) cs) = 1
      then Some (hd (filter (\<lambda>c. name_match c q) cs))
      else if length (filter (\<lambda>c. name_match c q) cs) > 1 then None
      else if length (prefix_candidates cs q) = 1 then Some (hd (prefix_candidates cs q))
      else None)"
proof -
  have 1: "id_loop trunc cs q = None"
    using assms(2) by (simp add: id_loop_None id_match_def)
  have 2: "swarm_loop trunc cs q = None"
    using assms(2) by (simp add: swarm_loop_None id_match_def)
  have 3: "Get trunc cs q =
     (if length (name_loop cs q []) = 1 then Some (hd (name_loop cs q []))
      else if length (name_loop cs q []) > 1 then None
      else if length (swarm_prefix_loop cs q (id_prefix_loop cs q (name_loop cs q []))) = 1
      then Some (hd (swarm_prefix_loop cs q (id_prefix_loop cs q (name_loop cs q []))))
      else None)"
    using assms(1) by (simp add: Get_def 1 2 Let_def)
  have 4: "name_loop cs q [] = filter (\<lambda>c. name_match c q) cs"
    by (simp add: name_loop_eq)
  have 5: "swarm_prefix_loop cs q (id_prefix_loop cs q []) = prefix_candidates cs q"
    by (simp add: id_prefix_loop_eq swarm_prefix_loop_eq prefix_candidates_def)
  show ?thesis
  proof (cases "filter (\<lambda>c. name_match c q) cs = []")
    case True
    then show ?thesis using 3 4 5 by simp
  next
    case False
    then have "length (filter (\<lambda>c. name_match c q) cs) = 1
        \<or> length (filter (\<lambda>c. name_match c q) cs) > 1"
      by (cases "filter (\<lambda>c. name_match c q) cs") auto
    then show ?thesis using 3 4 by auto
  qed
qed

lemma Get_empty: "Get trunc cs [] = None"
  by (simp add: Get_def)

lemma vnames_loop_eq: "vnames_loop names node q =
    (\<exists>name \<in> set names. name = q \<or> name = ''/'' @ q \<or> NodeID node @ name = q
        \<or> NodeName node @ name = q)"
  by (induction names) auto

lemma Container_loop_find:
  "Container_loop cs q = find (\<lambda>c. HasPrefix (VirtualId c) q \<or> vname_match c q) cs"
  by (induction cs) (auto simp: vnames_loop_eq vname_match_def)

lemmas lookup_eval = mk_container_def id_match_def name_match_def prefix_candidates_def
  TruncateID_def SwarmID_def SwarmLabelNamespace_def HasPrefix_def

text \<open>
  Claim C5, as amended. Let the query be the exact or truncated id or swarm id of no
  container of the list (such a container is returned first). When more than one container
  matches the query as a name, \<open>Get\<close> returns \<open>None\<close>. When exactly one container does and
  the query is not empty, as for a query \<^verbatim>\<open><engine-name>/name\<close> that names a container of
  one engine, \<open>Get\<close> returns that container.
\<close>

theorem Get_ambiguous_name:
  assumes "\<forall>c \<in> set cs. \<not> id_match trunc c q"
  shows "(length (filter (\<lambda>c. name_match c q) cs) > 1 \<longrightarrow> Get trunc cs q = None)
     \<and> (q \<noteq> [] \<and> filter (\<lambda>c. name_match c q) cs = [c] \<longrightarrow> Get trunc cs q = Some c)"
proof (cases "q = []")
  case True
  then show ?thesis by (simp add: Get_empty)
next
  case False
  then show ?thesis using Get_stages [OF False assms] by auto
qed

theorem Get_ambiguous_name_witness:
  "Get TruncateID
      [mk_container ''5f0d2c9a11aa'' [''/web''] Map.empty ''ABCD:1111'' ''engine1'',
       mk_container ''7be41d03c2bb'' [''/web''] Map.empty ''ABCD:2222'' ''engine2''] ''web''
     = None
   \<and> Get TruncateID
      [mk_container ''5f0d2c9a11aa'' [''/web''] Map.empty ''ABCD:1111'' ''engine1'',
       mk_container ''7be41d03c2bb'' [''/web''] Map.empty ''ABCD:2222'' ''engine2''] ''engine1/web''
     = Some (mk_container ''5f0d2c9a11aa'' [''/web''] Map.empty ''ABCD:1111'' ''engine1'')"
proof -
  let ?c1 = "mk_container ''5f0d2c9a11aa'' [''/web''] Map.empty ''ABCD:1111'' ''engine1''"
  let ?c2 = "mk_container ''7be41d03c2bb'' [''/web''] Map.empty ''ABCD:2222'' ''engine2''"
  have a: "\<forall>c \<in> set [?c1, ?c2]. \<not> id_match TruncateID c ''web''"
    by (simp add: lookup_eval)
  have b: "\<forall>c \<in> set [?c1, ?c2]. \<not> id_match TruncateID c ''engine1/web''"
    by (simp add: lookup_eval)
  have c: "length (filter (\<lambda>c. name_match c ''web'') [?c1, ?c2]) > 1"
    by (simp add: lookup_eval)
  have d: "filter (\<lambda>c. name_match c ''engine1/web'') [?c1, ?c2] = [?c1]"
    by (simp add: lookup_eval)
  show ?thesis
    using Get_ambiguous_name [OF a, of ?c1] Get_ambiguous_name [OF b, of ?c1] c d
    by simp
qed

text \<open>
  Without the condition on ids the claim fails: two containers are named \<^verbatim>\<open>0123456789ab\<close>,
  which is also the truncated id of the first, and \<open>Get\<close> returns the first instead of
  \<open>None\<close>.
\<close>

theorem Get_id_before_name_counterexample:
  "name_match (mk_container ''0123456789abcdef'' [''/0123456789ab''] Map.empty ''ABCD:1111'' ''engine1'')
      ''0123456789ab''
   \<and> name_match (mk_container ''fedcba9876543210'' [''/0123456789ab''] Map.empty ''ABCD:2222'' ''engine2'')
      ''0123456789ab''
   \<and> Get TruncateID
      [mk_container ''0123456789abcdef'' [''/0123456789ab''] Map.empty ''ABCD:1111'' ''engine1'',
       mk_container ''fedcba9876543210'' [''/0123456789ab''] Map.empty ''ABCD:2222'' ''engine2'']
      ''0123456789ab''
     = Some (mk_container ''0123456789abcdef'' [''/0123456789ab''] Map.empty ''ABCD:1111'' ''engine1'')"
  by (simp add: Get_def lookup_eval)

text \<open>
  Claim C6, as amended. A lookup of the empty string returns \<open>None\<close>, in \<open>Get\<close> and in
  \<^verbatim>\<open>Cluster.Container\<close>. There is no minimum length for a prefix: when a non-empty query
  matches no container as an id, a swarm id or a name, \<open>Get\<close> returns the container that
  the list of prefix matches holds when it holds exactly one, and \<open>None\<close> otherwise; and
  \<^verbatim>\<open>Cluster.Container\<close> returns the first container whose virtual id starts with the query or
  whose name matches it.
\<close>

theorem lookup_short_prefix:
  "Get trunc cs [] = None
   \<and> Cluster_Container cl order [] = None
   \<and> (q \<noteq> [] \<and> (\<forall>c \<in> set cs. \<not> id_match trunc c q \<and> \<not> name_match c q) \<longrightarrow>
        Get trunc cs q = (case prefix_candidates cs q of [c] \<Rightarrow> Some c | _ \<Rightarrow> None))
   \<and> (q \<noteq> [] \<longrightarrow>
        Cluster_Container cl order q =
          find (\<lambda>c. HasPrefix (VirtualId c) q \<or> vname_match c q) (Containers cl order))"
proof -
  have 3: "Get trunc cs q = (case prefix_candidates cs q of [c] \<Rightarrow> Some c | _ \<Rightarrow> None)"
    if "q \<noteq> []" "\<forall>c \<in> set cs. \<not> id_match trunc c q \<and> \<not> name_match c q"
  proof -
    have "filter (\<lambda>c. name_match c q) cs = []"
      using that(2) by (simp add: filter_empty_conv)
    then show ?thesis
      using Get_stages [of q cs trunc] that
      by (auto split: list.splits)
  qed
  show ?thesis
    using 3 by (simp add: Get_empty Cluster_Container_def Container_loop_find)
qed

theorem lookup_short_prefix_witness:
  "Get TruncateID [mk_container ''abcdef0123456789'' [''/web''] Map.empty ''ABCD:1111'' ''engine1''] []
     = None
   \<and> Get TruncateID
        [mk_container ''abcdef0123456789'' [''/web''] Map.empty ''ABCD:1111'' ''engine1'',
         mk_container ''ab00ef0123456789'' [''/db''] Map.empty ''ABCD:1111'' ''engine1''] ''abc''
     = Some (mk_container ''abcdef0123456789'' [''/web''] Map.empty ''ABCD:1111'' ''engine1'')
   \<and> Get TruncateID
        [mk_container ''abcdef0123456789'' [''/web''] Map.empty ''ABCD:1111'' ''engine1'',
         mk_container ''ab00ef0123456789'' [''/db''] Map.empty ''ABCD:1111'' ''engine1''] ''ab''
     = None
   \<and> Cluster_Container \<lparr>store = (), nodes = Map.empty, containers = Map.empty\<rparr> [] [] = None"
proof -
  let ?c1 = "mk_container ''abcdef0123456789'' [''/web''] Map.empty ''ABCD:1111'' ''engine1''"
  let ?c2 = "mk_container ''ab00ef0123456789'' [''/db''] Map.empty ''ABCD:1111'' ''engine1''"
  have a: "''abc'' \<noteq> [] \<and> (\<forall>c \<in> set [?c1, ?c2]. \<not> id_match TruncateID c ''abc'' \<and> \<not> name_match c ''abc'')"
    by (simp add: lookup_eval)
  have b: "''ab'' \<noteq> [] \<and> (\<forall>c \<in> set [?c1, ?c2]. \<not> id_match TruncateID c ''ab'' \<and> \<not> name_match c ''ab'')"
    by (simp add: lookup_eval)
  have c: "prefix_candidates [?c1, ?c2] ''abc'' = [?c1]"
    by (simp add: lookup_eval)
  have d: "prefix_candidates [?c1, ?c2] ''ab'' = [?c1, ?c2]"
    by (simp add: lookup_eval)
  let ?cl = "\<lparr>store = (), nodes = Map.empty, containers = Map.empty\<rparr>"
  have e: "Get TruncateID [?c1] [] = None" "Cluster_Container ?cl [] [] = None"
    using lookup_short_prefix [of TruncateID "[?c1]" ?cl "[]" "[]"] by blast+
  have f: "Get TruncateID [?c1, ?c2] ''abc'' = Some ?c1"
    using lookup_short_prefix [of TruncateID "[?c1, ?c2]" ?cl "[]" "''abc''"] a
    unfolding c by simp
  have g: "Get TruncateID [?c1, ?c2] ''ab'' = None"
    using lookup_short_prefix [of TruncateID "[?c1, ?c2]" ?cl "[]" "''ab''"] b
    unfolding d by simp
  from e f g show ?thesis by blast
qed

text \<open>
  A prefix of two characters resolves: the query \<^verbatim>\<open>ab\<close> matches the one container only as a
  prefix of its id, and \<open>Get\<close> returns the container; \<^verbatim>\<open>Cluster.Container\<close> returns the
  container whose virtual id starts with the query \<^verbatim>\<open>9f\<close>.
\<close>

theorem lookup_short_prefix_counterexample:
  "length ''ab'' = 2
   \<and> \<not> id_match TruncateID (mk_container ''abcdef0123456789'' [''/web''] Map.empty ''ABCD:1111'' ''engine1'') ''ab''
   \<and> \<not> name_match (mk_container ''abcdef0123456789'' [''/web''] Map.empty ''ABCD:1111'' ''engine1'') ''ab''
   \<and> HasPrefix (ID (mk_container ''abcdef0123456789'' [''/web''] Map.empty ''ABCD:1111'' ''engine1'')) ''ab''
   \<and> Get TruncateID [mk_container ''abcdef0123456789'' [''/web''] Map.empty ''ABCD:1111'' ''engine1''] ''ab''
     = Some (mk_container ''abcdef0123456789'' [''/web''] Map.empty ''ABCD:1111'' ''engine1'')
   \<and> Cluster_Container
        \<lparr>store = (), nodes = Map.empty,
          containers = [\<lparr>NodeID = ''ABCD:1111'', NodeName = ''node1'', Addr = ''10.0.0.1:2375''\<rparr>
            \<mapsto> [\<lparr>Id = ''abcdef0123456789'', VirtualId = ''9f8e7d6c5b4a'', VNames = [''/web''],
                  Node = \<lparr>NodeID = ''ABCD:1111'', NodeName = ''node1'', Addr = ''10.0.0.1:2375''\<rparr>\<rparr>]]\<rparr>
        [\<lparr>NodeID = ''ABCD:1111'', NodeName = ''node1'', Addr = ''10.0.0.1:2375''\<rparr>] ''9f''
     = Some \<lparr>Id = ''abcdef0123456789'', VirtualId = ''9f8e7d6c5b4a'', VNames = [''/web''],
                  Node = \<lparr>NodeID = ''ABCD:1111'', NodeName = ''node1'', Addr = ''10.0.0.1:2375''\<rparr>\<rparr>"
  by (simp add: Get_def Cluster_Container_def Containers_def lookup_eval)

text \<open>
  Claim C10, as amended. Let the query be the exact or truncated id or swarm id of no
  container, and not the name of exactly one container (the lookup then reaches the prefixes).
  The matches by id prefix and by swarm id prefix go into one list, and \<open>Get\<close> returns
  \<open>None\<close> whenever that list does not hold exactly one element; so it does for a query that
  is a prefix of both the id and the swarm id of one container, which is in the list twice.
\<close>

theorem Get_prefix_stage:
  assumes "\<forall>c \<in> set cs. \<not> id_match trunc c q"
    and "length (filter (\<lambda>c. name_match c q) cs) \<noteq> 1"
  shows "(length (prefix_candidates cs q) \<noteq> 1 \<longrightarrow> Get trunc cs q = None)
     \<and> (c \<in> set cs \<and> HasPrefix (ID c) q \<and> HasPrefix (SwarmID (Config c)) q
          \<longrightarrow> Get trunc cs q = None)"
proof (cases "q = []")
  case True
  then show ?thesis by (simp add: Get_empty)
next
  case False
  have twice: "length (prefix_candidates cs q) \<noteq> 1"
    if "c \<in> set cs" "HasPrefix (ID c) q" "HasPrefix (SwarmID (Config c)) q"
  proof -
    have "filter (\<lambda>c. HasPrefix (ID c) q) cs \<noteq> []"
      "filter (\<lambda>c. HasPrefix (SwarmID (Config c)) q) cs \<noteq> []"
      using that by (auto simp: filter_empty_conv)
    then have "length (filter (\<lambda>c. HasPrefix (ID c) q) cs) \<ge> 1"
      "length (filter (\<lambda>c. HasPrefix (SwarmID (Config c)) q) cs) \<ge> 1"
      by (simp_all add: Suc_le_eq)
    then show ?thesis by (simp add: prefix_candidates_def)
  qed
  show ?thesis using Get_stages [OF False assms(1)] assms(2) twice by auto
qed

theorem Get_prefix_stage_witness:
  "Get TruncateID
      [mk_container ''face12345678abcd'' [''/web'']
         [''com.docker.swarm.id'' \<mapsto> ''face87654321dcba''] ''ABCD:1111'' ''engine1''] ''face''
     = None
   \<and> Get TruncateID
      [mk_container ''face12345678abcd'' [''/web'']
         [''com.docker.swarm.id'' \<mapsto> ''face87654321dcba''] ''ABCD:1111'' ''engine1''] ''face1''
     = Some (mk_container ''face12345678abcd'' [''/web'']
         [''com.docker.swarm.id'' \<mapsto> ''face87654321dcba''] ''ABCD:1111'' ''engine1'')"
proof -
  let ?c = "mk_container ''face12345678abcd'' [''/web'']
         [''com.docker.swarm.id'' \<mapsto> ''face87654321dcba''] ''ABCD:1111'' ''engine1''"
  have a: "\<forall>c \<in> set [?c]. \<not> id_match TruncateID c ''face''"
    by (simp add: lookup_eval)
  have b: "length (filter (\<lambda>c. name_match c ''face'') [?c]) \<noteq> 1"
    by (simp add: lookup_eval)
  have c: "?c \<in> set [?c] \<and> HasPrefix (ID ?c) ''face'' \<and> HasPrefix (SwarmID (Config ?c)) ''face''"
    by (simp add: lookup_eval)
  have d: "Get TruncateID [?c] ''face1'' = Some ?c"
    by (simp add: Get_def lookup_eval)
  show ?thesis
    using Get_prefix_stage [OF a b, of ?c] c d by blast
qed

text \<open>
  Without the condition the claim fails: the query \<^verbatim>\<open>face\<close> is a prefix of the id and of the
  swarm id of the one container, which is also named \<^verbatim>\<open>face\<close>, and \<open>Get\<close> returns the
  container.
\<close>

theorem Get_name_before_prefix_counterexample:
  "HasPrefix (ID (mk_container ''face12345678abcd'' [''/face'']
         [''com.docker.swarm.id'' \<mapsto> ''face87654321dcba''] ''ABCD:1111'' ''engine1'')) ''face''
   \<and> HasPrefix (SwarmID (Config (mk_container ''face12345678abcd'' [''/face'']
         [''com.docker.swarm.id'' \<mapsto> ''face87654321dcba''] ''ABCD:1111'' ''engine1''))) ''face''
   \<and> length (prefix_candidates
        [mk_container ''face12345678abcd'' [''/face'']
           [''com.docker.swarm.id'' \<mapsto> ''face87654321dcba''] ''ABCD:1111'' ''engine1''] ''face'') = 2
   \<and> Get TruncateID
        [mk_container ''face12345678abcd'' [''/face'']
           [''com.docker.swarm.id'' \<mapsto> ''face87654321dcba''] ''ABCD:1111'' ''engine1''] ''face''
     = Some (mk_container ''face12345678abcd'' [''/face'']
           [''com.docker.swarm.id'' \<mapsto> ''face87654321dcba''] ''ABCD:1111'' ''engine1'')"
  by (simp add: Get_def lookup_eval)

section \<open>Properties of the cluster of nodes\<close>

lemma refreshContainers_nodes: "nodes (refreshContainers d c node) = nodes c"
  by (simp add: refreshContainers_def split: prod.splits)

lemma AddNode_nodes:
  "nodes (snd (AddNode d c n)) =
     (if IsConnected d n \<and> nodes c (NodeID n) = None then (nodes c)(NodeID n \<mapsto> n) else nodes c)"
  by (simp add: AddNode_def Let_def refreshContainers_nodes)

lemma AddNode_keeps_ids:
  "\<forall>k m. nodes c k = Some m \<longrightarrow> NodeID m = k \<Longrightarrow>
   \<forall>k m. nodes (snd (AddNode d c n)) k = Some m \<longrightarrow> NodeID m = k"
  by (simp add: AddNode_nodes)

lemma AddNodes_keeps_ids:
  "\<forall>k m. nodes c k = Some m \<longrightarrow> NodeID m = k \<Longrightarrow>
   \<forall>k m. nodes (AddNodes c calls) k = Some m \<longrightarrow> NodeID m = k"
proof (induction calls arbitrary: c)
  case Nil
  then show ?case by simp
next
  case (Cons call calls)
  obtain d n where call: "call = (d, n)" by (cases call)
  show ?case
    unfolding call AddNodes.simps
    by (rule Cons.IH) (rule AddNode_keeps_ids [OF Cons.prems])
qed

text \<open>
  Claim C9. \<open>AddNode\<close> returns \<open>ErrNodeNotConnected\<close> for a node that is not connected,
  whether or not its id is registered, and \<open>ErrNodeAlreadyRegistered\<close> for a connected node
  whose id is registered; the two errors differ, and in both cases the cluster is unchanged.
  Otherwise the node is registered under its id. So after any sequence of calls from a new
  cluster every registered node is stored under its own id, and no two registered nodes
  share an id.
\<close>

theorem AddNode_errors:
  "(\<not> IsConnected d n \<longrightarrow> AddNode d c n = (Some ErrNodeNotConnected, c))
   \<and> (IsConnected d n \<and> nodes c (NodeID n) \<noteq> None \<longrightarrow>
        AddNode d c n = (Some ErrNodeAlreadyRegistered, c))
   \<and> ErrNodeNotConnected \<noteq> ErrNodeAlreadyRegistered
   \<and> (IsConnected d n \<and> nodes c (NodeID n) = None \<longrightarrow>
        nodes (snd (AddNode d c n)) = (nodes c)(NodeID n \<mapsto> n))
   \<and> (\<forall>k m. nodes (AddNodes (NewCluster st) calls) k = Some m \<longrightarrow> NodeID m = k)
   \<and> (\<forall>k k' m m'. nodes (AddNodes (NewCluster st) calls) k = Some m
        \<and> nodes (AddNodes (NewCluster st) calls) k' = Some m' \<and> k \<noteq> k'
        \<longrightarrow> NodeID m \<noteq> NodeID m')"
proof -
  have inv: "\<forall>k m. nodes (AddNodes (NewCluster st) calls) k = Some m \<longrightarrow> NodeID m = k"
    by (rule AddNodes_keeps_ids) (simp add: NewCluster_def)
  have 1: "\<not> IsConnected d n \<longrightarrow> AddNode d c n = (Some ErrNodeNotConnected, c)"
    by (simp add: AddNode_def)
  have 2: "IsConnected d n \<and> nodes c (NodeID n) \<noteq> None \<longrightarrow>
        AddNode d c n = (Some ErrNodeAlreadyRegistered, c)"
    by (auto simp add: AddNode_def)
  have 3: "ErrNodeNotConnected \<noteq> ErrNodeAlreadyRegistered"
    by (simp add: ErrNodeNotConnected_def ErrNodeAlreadyRegistered_def)
  have 4: "IsConnected d n \<and> nodes c (NodeID n) = None \<longrightarrow>
        nodes (snd (AddNode d c n)) = (nodes c)(NodeID n \<mapsto> n)"
    by (simp add: AddNode_nodes)
  from inv have 5: "\<forall>k k' m m'. nodes (AddNodes (NewCluster st) calls) k = Some m
        \<and> nodes (AddNodes (NewCluster st) calls) k' = Some m' \<and> k \<noteq> k'
        \<longrightarrow> NodeID m \<noteq> NodeID m'"
    by metis
  from 1 2 3 4 inv 5 show ?thesis by blast
qed

theorem AddNode_errors_witness:
  "AddNode example_deps (NewCluster ()) \<lparr>NodeID = ''N1'', NodeName = ''node1'', Addr = []\<rparr>
     = (Some ErrNodeNotConnected, NewCluster ())
   \<and> AddNode example_deps
        (snd (AddNode example_deps (NewCluster ())
           \<lparr>NodeID = ''N1'', NodeName = ''node1'', Addr = ''10.0.0.1:2375''\<rparr>))
        \<lparr>NodeID = ''N1'', NodeName = ''other'', Addr = ''10.0.0.2:2375''\<rparr>
     = (Some ErrNodeAlreadyRegistered,
        snd (AddNode example_deps (NewCluster ())
           \<lparr>NodeID = ''N1'', NodeName = ''node1'', Addr = ''10.0.0.1:2375''\<rparr>))
   \<and> nodes (AddNodes (NewCluster ())
        [(example_deps, \<lparr>NodeID = ''N1'', NodeName = ''node1'', Addr = ''10.0.0.1:2375''\<rparr>),
         (example_deps, \<lparr>NodeID = ''N1'', NodeName = ''other'', Addr = ''10.0.0.2:2375''\<rparr>),
         (example_deps, \<lparr>NodeID = ''N2'', NodeName = ''node1'', Addr = ''10.0.0.3:2375''\<rparr>)])
     = [''N1'' \<mapsto> \<lparr>NodeID = ''N1'', NodeName = ''node1'', Addr = ''10.0.0.1:2375''\<rparr>,
        ''N2'' \<mapsto> \<lparr>NodeID = ''N2'', NodeName = ''node1'', Addr = ''10.0.0.3:2375''\<rparr>]"
proof -
  let ?n1 = "\<lparr>NodeID = ''N1'', NodeName = ''node1'', Addr = ''10.0.0.1:2375''\<rparr>"
  let ?n1' = "\<lparr>NodeID = ''N1'', NodeName = ''other'', Addr = ''10.0.0.2:2375''\<rparr>"
  let ?n2 = "\<lparr>NodeID = ''N2'', NodeName = ''node1'', Addr = ''10.0.0.3:2375''\<rparr>"
  let ?down = "\<lparr>NodeID = ''N1'', NodeName = ''node1'', Addr = []\<rparr>"
  let ?c1 = "snd (AddNode example_deps (NewCluster ()) ?n1)"
  have a: "\<not> IsConnected example_deps ?down"
    by (simp add: example_deps_def)
  have n1: "nodes ?c1 = [''N1'' \<mapsto> ?n1]"
    by (simp add: AddNode_nodes example_deps_def NewCluster_def)
  have b: "IsConnected example_deps ?n1' \<and> nodes ?c1 (NodeID ?n1') \<noteq> None"
    unfolding n1 by (simp add: example_deps_def)
  have 1: "AddNode example_deps (NewCluster ()) ?down = (Some ErrNodeNotConnected, NewCluster ())"
    using AddNode_errors [of example_deps ?down "NewCluster ()" "()" "[]"] a by blast
  have 2: "AddNode example_deps ?c1 ?n1' = (Some ErrNodeAlreadyRegistered, ?c1)"
    using AddNode_errors [of example_deps ?n1' ?c1 "()" "[]"] b by blast
  have 3: "nodes (AddNodes (NewCluster ())
        [(example_deps, ?n1), (example_deps, ?n1'), (example_deps, ?n2)])
     = [''N1'' \<mapsto> ?n1, ''N2'' \<mapsto> ?n2]"
    by (simp add: AddNode_nodes example_deps_def NewCluster_def)
  from 1 2 3 show ?thesis by blast
qed

end
